theory Spec2Isabelle
  imports Complex_Main "HOL-Library.Sublist"
begin

section \<open>The trade ledger (trade\_logger.py)\<close>

text \<open>
  One row of the trade log CSV, with the columns \<open>log_trade\<close> writes. The timestamp is
  the value \<open>pd.to_datetime\<close> parses from the \<open>'%Y-%m-%d %H:%M:%S'\<close> stamp, counted
  in seconds; prices and amounts are the exact values of the floats.
\<close>

record trade_record =
  tr_timestamp :: nat
  tr_order_id :: nat
  tr_symbol :: string
  tr_side :: string
  tr_price :: rat
  tr_quantity :: rat
  tr_cost :: rat
  tr_commission :: rat
  tr_pnl :: rat

text \<open>\<open>DataFrame.tail(1)\<close>: the last row as a frame of at most one row.\<close>

definition tail1 :: "'a list \<Rightarrow> 'a list" where
  "tail1 xs = drop (length xs - 1) xs"

text \<open>
  \<open>get_last_buy_for_symbol\<close>. The argument \<open>log_df\<close> is what \<open>read_log()\<close> returns: the
  rows of the file in file order (an unreadable file reads as the empty frame). The two
  \<open>iloc[0]\<close> reads are the heads of the one-row frames; Python's short-circuit \<open>or\<close>/\<open>and\<close>
  only reaches them when both frames are non-empty.
\<close>

definition get_last_buy_for_symbol :: "trade_record list \<Rightarrow> string \<Rightarrow> trade_record option" where
  "get_last_buy_for_symbol log_df symbol =
     (if log_df = [] then None
      else
        let symbol_df = filter (\<lambda>r. tr_symbol r = symbol) log_df;
            last_buy = tail1 (filter (\<lambda>r. tr_side r = ''BUY'') symbol_df);
            last_sell = tail1 (filter (\<lambda>r. tr_side r = ''SELL'') symbol_df)
        in case last_buy of
             [] \<Rightarrow> None
           | b # _ \<Rightarrow>
               (case last_sell of
                  [] \<Rightarrow> Some b
                | s # _ \<Rightarrow> if tr_timestamp s > tr_timestamp b then None else Some b))"

text \<open>
  The specification's wording, for comparison: the most recent record of a side for a
  symbol is the first matching record met when the ledger is read backwards.
\<close>

definition most_recent :: "string \<Rightarrow> string \<Rightarrow> trade_record list \<Rightarrow> trade_record option" where
  "most_recent sd symbol ledger = find (\<lambda>r. tr_symbol r = symbol \<and> tr_side r = sd) (rev ledger)"


text \<open>Two ledger rows for the examples: a BUY and a SELL of one symbol at a given time.\<close>

definition example_buy :: "nat \<Rightarrow> trade_record" where
  "example_buy t =
     \<lparr>tr_timestamp = t, tr_order_id = 1, tr_symbol = ''binance_ETHUSDT'', tr_side = ''BUY'',
      tr_price = 100, tr_quantity = 1, tr_cost = 100, tr_commission = 0, tr_pnl = 0\<rparr>"

definition example_sell :: "nat \<Rightarrow> trade_record" where
  "example_sell t =
     \<lparr>tr_timestamp = t, tr_order_id = 2, tr_symbol = ''binance_ETHUSDT'', tr_side = ''SELL'',
      tr_price = 110, tr_quantity = 1, tr_cost = 110, tr_commission = 0, tr_pnl = 10\<rparr>"

section \<open>Float values\<close>

text \<open>
  A float64 as the indicator code meets it: a finite value, negative zero, an infinity
  or NaN. \<open>Fin 0\<close> is \<open>+0.0\<close> and \<open>NZero\<close> is \<open>-0.0\<close>; finite arithmetic is exact
  (rounding is not modelled). Division by zero follows numpy, which pandas uses for a
  Series: \<open>x / 0\<close> is an infinity for \<open>x \<noteq> 0\<close>, with the sign of \<open>x\<close> times the sign
  of the zero, and NaN for \<open>0 / 0\<close>; nothing is raised. The two zeros compare equal and
  every comparison with NaN is false.
\<close>

datatype fl = Fin rat | NZero | PInf | NInf | NaN

fun fl_neg :: "fl \<Rightarrow> fl" where
  "fl_neg (Fin a) = (if a = 0 then NZero else Fin (- a))"
| "fl_neg NZero = Fin 0"
| "fl_neg PInf = NInf"
| "fl_neg NInf = PInf"
| "fl_neg NaN = NaN"

fun fl_add :: "fl \<Rightarrow> fl \<Rightarrow> fl" where
  "fl_add (Fin a) (Fin b) = Fin (a + b)"
| "fl_add (Fin a) NZero = Fin a"
| "fl_add NZero (Fin b) = Fin b"
| "fl_add NZero NZero = NZero"
| "fl_add (Fin a) PInf = PInf"
| "fl_add (Fin a) NInf = NInf"
| "fl_add NZero PInf = PInf"
| "fl_add NZero NInf = NInf"
| "fl_add PInf (Fin b) = PInf"
| "fl_add PInf NZero = PInf"
| "fl_add PInf PInf = PInf"
| "fl_add NInf (Fin b) = NInf"
| "fl_add NInf NZero = NInf"
| "fl_add NInf NInf = NInf"
| "fl_add _ _ = NaN"

definition fl_sub :: "fl \<Rightarrow> fl \<Rightarrow> fl" where
  "fl_sub a b = fl_add a (fl_neg b)"

fun fl_div :: "fl \<Rightarrow> fl \<Rightarrow> fl" where
  "fl_div (Fin a) (Fin b) =
     (if b \<noteq> 0 then (if a = 0 \<and> b < 0 then NZero else Fin (a / b))
      else if a = 0 then NaN
      else if 0 < a then PInf else NInf)"
| "fl_div (Fin a) NZero = (if a = 0 then NaN else if 0 < a then NInf else PInf)"
| "fl_div NZero (Fin b) = (if b = 0 then NaN else if 0 < b then NZero else Fin 0)"
| "fl_div (Fin a) PInf = (if 0 \<le> a then Fin 0 else NZero)"
| "fl_div (Fin a) NInf = (if 0 \<le> a then NZero else Fin 0)"
| "fl_div NZero PInf = NZero"
| "fl_div NZero NInf = Fin 0"
| "fl_div PInf (Fin b) = (if 0 \<le> b then PInf else NInf)"
| "fl_div PInf NZero = NInf"
| "fl_div NInf (Fin b) = (if 0 \<le> b then NInf else PInf)"
| "fl_div NInf NZero = PInf"
| "fl_div _ _ = NaN"

fun fl_less :: "fl \<Rightarrow> fl \<Rightarrow> bool" where
  "fl_less (Fin a) (Fin b) = (a < b)"
| "fl_less (Fin a) NZero = (a < 0)"
| "fl_less NZero (Fin b) = (0 < b)"
| "fl_less (Fin a) PInf = True"
| "fl_less NZero PInf = True"
| "fl_less NInf (Fin b) = True"
| "fl_less NInf NZero = True"
| "fl_less NInf PInf = True"
| "fl_less _ _ = False"

fun fl_le :: "fl \<Rightarrow> fl \<Rightarrow> bool" where
  "fl_le (Fin a) (Fin b) = (a \<le> b)"
| "fl_le (Fin a) NZero = (a \<le> 0)"
| "fl_le NZero (Fin b) = (0 \<le> b)"
| "fl_le NZero NZero = True"
| "fl_le (Fin a) PInf = True"
| "fl_le NZero PInf = True"
| "fl_le NInf (Fin b) = True"
| "fl_le NInf NZero = True"
| "fl_le NInf PInf = True"
| "fl_le PInf PInf = True"
| "fl_le NInf NInf = True"
| "fl_le _ _ = False"

text \<open>\<open>pd.isna\<close> on a float and \<open>Series.fillna(0)\<close> on one entry: only NaN counts.\<close>

fun isna :: "fl \<Rightarrow> bool" where
  "isna NaN = True"
| "isna _ = False"

fun fillna0 :: "fl \<Rightarrow> fl" where
  "fillna0 NaN = Fin 0"
| "fillna0 x = x"

section \<open>Indicators and signals (strategy.py)\<close>

text \<open>
  The indicator columns are named by f-strings, \<open>SMA_{n}\<close> and \<open>RSI_{n}\<close>: a name is a
  kind with the window it was built from, so two equal windows name one column.
\<close>

datatype column = SMA nat | RSI nat

text \<open>
  The part of a DataFrame the decision code reads: the close prices (finite floats, as
  \<open>pd.to_numeric\<close> yields for the exchange's decimal strings) and the indicator
  columns. \<open>len(df)\<close> is the number of closes.
\<close>

record data_frame =
  df_close :: "rat list"
  df_cols :: "column \<rightharpoonup> fl list"

definition df_len :: "data_frame \<Rightarrow> nat" where
  "df_len df = length (df_close df)"

text \<open>
  A cell of a column at a row. pandas aligns a column with the frame's index, so a row
  the column holds no value for reads as NaN.
\<close>

definition cell :: "data_frame \<Rightarrow> column \<Rightarrow> nat \<Rightarrow> fl" where
  "cell df c i =
     (case df_cols df c of
        None \<Rightarrow> NaN
      | Some vs \<Rightarrow> if i < length vs then vs ! i else NaN)"

text \<open>
  A strategy profile, the dict of config.py. A window is a non-negative integer (pandas
  rejects any other).
\<close>

record params =
  granularity :: string
  short_sma :: nat
  long_sma :: nat
  rsi_period :: nat
  rsi_overbought :: rat
  rsi_oversold :: rat

definition STRATEGY_MODERATE :: params where
  "STRATEGY_MODERATE =
     \<lparr>granularity = ''1h'', short_sma = 8, long_sma = 21, rsi_period = 14,
      rsi_overbought = 75, rsi_oversold = 25\<rparr>"

definition STRATEGY_AGGRESSIVE :: params where
  "STRATEGY_AGGRESSIVE =
     \<lparr>granularity = ''1m'', short_sma = 5, long_sma = 13, rsi_period = 9,
      rsi_overbought = 80, rsi_oversold = 20\<rparr>"

text \<open>
  \<open>Series.rolling(window=w).mean()\<close> on finite values: \<open>min_periods\<close> defaults to the
  window, so the first \<open>w - 1\<close> entries are NaN; an empty window (\<open>w = 0\<close>) has no
  observation and is NaN everywhere.
\<close>

definition rolling_mean :: "nat \<Rightarrow> rat list \<Rightarrow> fl list" where
  "rolling_mean w xs =
     map (\<lambda>i. if 1 \<le> w \<and> w \<le> i + 1
               then Fin (sum_list (take w (drop (i + 1 - w) xs)) / of_nat w)
               else NaN)
         [0..<length xs]"

text \<open>\<open>Series.diff()\<close>: the first entry is NaN (\<open>None\<close> here), then the differences.\<close>

fun diff :: "rat list \<Rightarrow> rat option list" where
  "diff [] = []"
| "diff (x # xs) = None # map (\<lambda>(a, b). Some (b - a)) (zip (x # xs) xs)"

text \<open>
  \<open>delta.where(delta > 0, 0)\<close> and \<open>-delta.where(delta < 0, 0)\<close> on one entry: an entry
  that fails the test, NaN included, is replaced by \<open>0\<close>, which is \<open>+0.0\<close> in a float
  series. The loss series is negated after that, so each of its zero entries is \<open>-0.0\<close>.
\<close>

definition gain_of :: "rat option \<Rightarrow> rat" where
  "gain_of d = (case d of Some v \<Rightarrow> if 0 < v then v else 0 | None \<Rightarrow> 0)"

definition loss_of :: "rat option \<Rightarrow> fl" where
  "loss_of d = fl_neg (Fin (case d of Some v \<Rightarrow> if v < 0 then v else 0 | None \<Rightarrow> 0))"

text \<open>
  The rolling mean of a series that holds negative zeros. For a window whose entries
  are all one value pandas returns that value itself, so the mean of a window of \<open>-0.0\<close>
  is \<open>-0.0\<close>; for any other window it is the sum over the window length. An entry that
  is NaN makes the window incomplete and its mean NaN. On finite entries without a
  negative zero this is \<open>rolling_mean\<close>.
\<close>

definition window_mean :: "fl list \<Rightarrow> fl" where
  "window_mean ws =
     (case ws of
        [] \<Rightarrow> NaN
      | x # _ \<Rightarrow>
          if list_all (\<lambda>y. y = x) ws then x
          else fl_div (foldl fl_add (Fin 0) ws) (Fin (of_nat (length ws))))"

definition rolling_mean_fl :: "nat \<Rightarrow> fl list \<Rightarrow> fl list" where
  "rolling_mean_fl w xs =
     map (\<lambda>i. if 1 \<le> w \<and> w \<le> i + 1 then window_mean (take w (drop (i + 1 - w) xs)) else NaN)
         [0..<length xs]"

text \<open>The rolling means of gain and loss, and the ratio \<open>rs\<close> before and after \<open>fillna(0)\<close>.\<close>

definition gain_mean :: "nat \<Rightarrow> rat list \<Rightarrow> fl list" where
  "gain_mean period closes = rolling_mean period (map gain_of (diff closes))"

definition loss_mean :: "nat \<Rightarrow> rat list \<Rightarrow> fl list" where
  "loss_mean period closes = rolling_mean_fl period (map loss_of (diff closes))"

definition rs_raw :: "nat \<Rightarrow> rat list \<Rightarrow> fl list" where
  "rs_raw period closes =
     map (\<lambda>(g, l). fl_div g l) (zip (gain_mean period closes) (loss_mean period closes))"

definition rs_filled :: "nat \<Rightarrow> rat list \<Rightarrow> fl list" where
  "rs_filled period closes = map fillna0 (rs_raw period closes)"

definition rsi_of_rs :: "fl \<Rightarrow> fl" where
  "rsi_of_rs rs = fl_sub (Fin 100) (fl_div (Fin 100) (fl_add (Fin 1) rs))"

definition rsi_series :: "nat \<Rightarrow> rat list \<Rightarrow> fl list" where
  "rsi_series period closes = map rsi_of_rs (rs_filled period closes)"

text \<open>
  \<open>calculate_indicators\<close>: \<open>None\<close> for no frame; otherwise the frame with the three
  columns assigned in the source's order (a later assignment to the same name wins).
\<close>

definition calculate_indicators :: "data_frame option \<Rightarrow> params \<Rightarrow> data_frame option" where
  "calculate_indicators dfo p =
     (case dfo of
        None \<Rightarrow> None
      | Some df \<Rightarrow>
          let short_sma_period = short_sma p;
              long_sma_period = long_sma p;
              rsi_period' = rsi_period p;
              df1 = df\<lparr>df_cols := (df_cols df)(SMA short_sma_period \<mapsto>
                        rolling_mean short_sma_period (df_close df))\<rparr>;
              df2 = df1\<lparr>df_cols := (df_cols df1)(SMA long_sma_period \<mapsto>
                        rolling_mean long_sma_period (df_close df1))\<rparr>;
              df3 = df2\<lparr>df_cols := (df_cols df2)(RSI rsi_period' \<mapsto>
                        rsi_series rsi_period' (df_close df2))\<rparr>
          in Some df3)"

datatype signal = BUY | SELL | HOLD

text \<open>
  The reason strings of \<open>generate_signal\<close>, one constructor per message; the
  overbought message carries the oscillator value it prints.
\<close>

datatype reason =
    Not_enough_data
  | Indicator_columns_missing
  | Indicators_still_calculating
  | Golden_Cross_RSI_Confirmation
  | Aggressive_Sell_RSI_Overbought fl
  | Death_Cross
  | No_signal

datatype py_error = IndexError | AttributeError | TypeError

text \<open>
  \<open>generate_signal\<close>. \<open>df.iloc[-1]\<close> and \<open>df.iloc[-2]\<close> raise IndexError on a frame
  with fewer than one, respectively two, rows.
\<close>

definition generate_signal :: "data_frame option \<Rightarrow> params \<Rightarrow> py_error + (signal \<times> reason)" where
  "generate_signal dfo p =
     (let short_sma_col = SMA (short_sma p);
          long_sma_col = SMA (long_sma p);
          rsi_col = RSI (rsi_period p)
      in case dfo of
           None \<Rightarrow> Inr (HOLD, Not_enough_data)
         | Some df \<Rightarrow>
             if df_len df < long_sma p then Inr (HOLD, Not_enough_data)
             else if \<not> list_all (\<lambda>col. col \<in> dom (df_cols df)) [short_sma_col, long_sma_col, rsi_col]
               then Inr (HOLD, Indicator_columns_missing)
             else if df_len df < 1 then Inl IndexError
             else if df_len df < 2 then Inl IndexError
             else
               let last_row = df_len df - 1;
                   prev_row = df_len df - 2
               in if isna (cell df short_sma_col last_row) \<or> isna (cell df long_sma_col last_row)
                    then Inr (HOLD, Indicators_still_calculating)
                  else
                    let sma_cross_over =
                          (fl_le (cell df short_sma_col prev_row) (cell df long_sma_col prev_row) \<and>
                           fl_less (cell df long_sma_col last_row) (cell df short_sma_col last_row));
                        rsi_confirm_buy = fl_less (cell df rsi_col last_row) (Fin (rsi_overbought p))
                    in if sma_cross_over \<and> rsi_confirm_buy
                         then Inr (BUY, Golden_Cross_RSI_Confirmation)
                       else
                         let sma_cross_under =
                               (fl_le (cell df long_sma_col prev_row) (cell df short_sma_col prev_row) \<and>
                                fl_less (cell df short_sma_col last_row) (cell df long_sma_col last_row));
                             rsi_is_overbought =
                               fl_less (Fin (rsi_overbought p)) (cell df rsi_col last_row)
                         in if rsi_is_overbought
                              then Inr (SELL, Aggressive_Sell_RSI_Overbought (cell df rsi_col last_row))
                            else if sma_cross_under then Inr (SELL, Death_Cross)
                            else Inr (HOLD, No_signal))"

text \<open>
  \<open>process_raw_klines\<close>: no frame for a missing or empty response; otherwise the rows
  sorted by open time. Of a kline only the open time and the close are read later.
\<close>

record kline =
  k_time :: nat
  k_close :: rat

definition process_raw_klines :: "kline list option \<Rightarrow> data_frame option" where
  "process_raw_klines klines_json =
     (case klines_json of
        None \<Rightarrow> None
      | Some [] \<Rightarrow> None
      | Some ks \<Rightarrow> Some \<lparr>df_close = map k_close (sort_key k_time ks), df_cols = Map.empty\<rparr>)"

section \<open>Risk checks (risk\_manager.py, config.py)\<close>

definition SAFE_PORTFOLIO_VALUE_THRESHOLD :: rat where
  "SAFE_PORTFOLIO_VALUE_THRESHOLD = 200"

definition MARKET_CRASH_THRESHOLD_PERCENT :: rat where
  "MARKET_CRASH_THRESHOLD_PERCENT = - 10"

definition BINANCE_BTC_MIN_VALUE :: rat where
  "BINANCE_BTC_MIN_VALUE = 50"

text \<open>The percent change between the two most recent closes, as the crash check computes it.\<close>

definition price_change_percent :: "rat \<Rightarrow> rat \<Rightarrow> rat" where
  "price_change_percent last_close prev_close = ((last_close - prev_close) / prev_close) * 100"

text \<open>
  \<open>check_market_crash\<close>. In the crash branch the message is built before \<open>True\<close> is
  returned, and the f-string reads \<open>df.name\<close>: a DataFrame has no attribute \<open>name\<close> (the
  frame has no column of that name either), so the branch raises AttributeError.
\<close>

definition check_market_crash :: "data_frame option \<Rightarrow> py_error + bool" where
  "check_market_crash dfo =
     (case dfo of
        None \<Rightarrow> Inr False
      | Some df \<Rightarrow>
          if df_close df = [] \<or> df_len df < 2 then Inr False
          else
            let last_close = df_close df ! (df_len df - 1);
                prev_close = df_close df ! (df_len df - 2)
            in if prev_close = 0 then Inr False
               else if price_change_percent last_close prev_close < MARKET_CRASH_THRESHOLD_PERCENT
                 then Inl AttributeError
               else Inr False)"


section \<open>Notions used to state the properties of the signal generator\<close>

text \<open>
  The two conditions of the specification on the last two rows of a frame, in its words:
  the short average moves from at or above the long average at the previous step to
  below it at the current step; the oscillator is above the overbought threshold at the
  current step.
\<close>

definition crossunder :: "data_frame \<Rightarrow> params \<Rightarrow> bool" where
  "crossunder df p \<longleftrightarrow>
     2 \<le> df_len df \<and>
     fl_le (cell df (SMA (long_sma p)) (df_len df - 2)) (cell df (SMA (short_sma p)) (df_len df - 2)) \<and>
     fl_less (cell df (SMA (short_sma p)) (df_len df - 1)) (cell df (SMA (long_sma p)) (df_len df - 1))"

definition overbought :: "data_frame \<Rightarrow> params \<Rightarrow> bool" where
  "overbought df p \<longleftrightarrow>
     1 \<le> df_len df \<and>
     fl_less (Fin (rsi_overbought p)) (cell df (RSI (rsi_period p)) (df_len df - 1))"

text \<open>Profiles and frames for the examples.\<close>

definition example_profile :: params where
  "example_profile =
     \<lparr>granularity = ''1m'', short_sma = 2, long_sma = 3, rsi_period = 1,
      rsi_overbought = 70, rsi_oversold = 30\<rparr>"


definition frame_of :: "rat list \<Rightarrow> data_frame" where
  "frame_of closes = \<lparr>df_close = closes, df_cols = Map.empty\<rparr>"

text \<open>
  The frames \<open>calculate_indicators\<close> builds from the closes \<open>[5, 15, 6, 7]\<close> under
  \<open>example_profile\<close> and from the single close \<open>[5]\<close> under \<open>one_bar_profile\<close>.
\<close>

definition example_frame :: data_frame where
  "example_frame =
     \<lparr>df_close = [5, 15, 6, 7],
      df_cols = [SMA 2 \<mapsto> [NaN, Fin 10, Fin (21 / 2), Fin (13 / 2)],
                 SMA 3 \<mapsto> [NaN, NaN, Fin (26 / 3), Fin (28 / 3)],
                 RSI 1 \<mapsto> [Fin 0, Fin 100, Fin 0, Fin 100]]\<rparr>"


text \<open>
  A profile whose short window is longer than the series \<open>[1, 2, 3]\<close>, and the frame
  \<open>calculate_indicators\<close> builds from that series under it.
\<close>

definition warming_profile :: params where
  "warming_profile =
     \<lparr>granularity = ''1m'', short_sma = 5, long_sma = 2, rsi_period = 1,
      rsi_overbought = 70, rsi_oversold = 30\<rparr>"

definition warming_frame :: data_frame where
  "warming_frame =
     \<lparr>df_close = [1, 2, 3],
      df_cols = [SMA 5 \<mapsto> [NaN, NaN, NaN], SMA 2 \<mapsto> [NaN, Fin (3 / 2), Fin (5 / 2)],
                 RSI 1 \<mapsto> [Fin 0, Fin 100, Fin 100]]\<rparr>"

section \<open>The exchange client (binance\_client.py)\<close>

text \<open>Strings: \<open>str.upper\<close>, \<open>sub in s\<close> and \<open>str.replace\<close> on ASCII text.\<close>

definition upper_char :: "char \<Rightarrow> char" where
  "upper_char c =
     (let n = (of_char c :: nat) in if 97 \<le> n \<and> n \<le> 122 then char_of (n - 32) else c)"

definition upper :: "string \<Rightarrow> string" where
  "upper s = map upper_char s"

fun contains_str :: "string \<Rightarrow> string \<Rightarrow> bool" where
  "contains_str sub [] = (sub = [])"
| "contains_str sub (c # cs) = (take (length sub) (c # cs) = sub \<or> contains_str sub cs)"

fun replace_nonempty :: "string \<Rightarrow> string \<Rightarrow> string \<Rightarrow> string" where
  "replace_nonempty old new [] = []"
| "replace_nonempty old new (c # cs) =
     (if take (length old) (c # cs) = old
      then new @ replace_nonempty old new (drop (length old - 1) cs)
      else c # replace_nonempty old new cs)"

definition replace_str :: "string \<Rightarrow> string \<Rightarrow> string \<Rightarrow> string" where
  "replace_str s old new =
     (if old = [] then new @ concat (map (\<lambda>c. c # new) s) else replace_nonempty old new s)"

text \<open>
  Python's \<open>round(x, 8)\<close>: to the nearest multiple of \<open>10^-8\<close>, a tie going to the even
  one.
\<close>

definition round_half_even :: "rat \<Rightarrow> int" where
  "round_half_even y =
     (let f = \<lfloor>y\<rfloor>; d = y - of_int f
      in if d < 1 / 2 then f else if 1 / 2 < d then f + 1 else if even f then f else f + 1)"

definition round8 :: "rat \<Rightarrow> rat" where
  "round8 x = of_int (round_half_even (x * 10 ^ 8)) / 10 ^ 8"

text \<open>The trading rules of a symbol loaded by \<open>_load_symbol_info\<close>.\<close>

record symbol_rules =
  tick_size :: rat
  step_size :: rat

text \<open>An order as \<open>create_order\<close> receives it, and the exchange's answer with its fills.\<close>

record order_request =
  rq_symbol :: string
  rq_side :: string
  rq_quantity :: rat
  rq_price :: rat

record fill =
  f_qty :: rat
  f_price :: rat
  f_commission :: rat

record order_response =
  orderId :: nat
  fills :: "fill list option"

text \<open>The dict \<open>_parse_order_response\<close> returns.\<close>

record order_details =
  od_order_id :: nat
  od_price :: rat
  od_quantity :: rat
  od_cost :: rat
  od_commission :: rat

text \<open>
  The exchange as one call sees it. Each field is the result of the client method of
  that name with its own error handling applied: the balance is \<open>0.0\<close> and the price
  and the klines are \<open>None\<close> when the request fails. \<open>cl_create_order\<close> is \<open>None\<close> when
  the exchange rejects the order (the library raises) or answers with nothing.
\<close>

record client =
  cl_connected :: bool
  cl_symbol_info :: "string \<rightharpoonup> symbol_rules"
  cl_asset_balance :: "string \<Rightarrow> rat"
  cl_current_price :: "string \<Rightarrow> rat option"
  cl_historic_rates :: "string \<Rightarrow> string \<Rightarrow> kline list option"
  cl_create_order :: "order_request \<Rightarrow> order_response option"

text \<open>
  \<open>_round_quantity_to_step\<close> and \<open>_round_price_to_tick\<close>: \<open>None\<close> stands for the
  ZeroDivisionError of a zero step or tick.
\<close>

definition round_quantity_to_step :: "client \<Rightarrow> string \<Rightarrow> rat \<Rightarrow> rat option" where
  "round_quantity_to_step cl symbol quantity =
     (case cl_symbol_info cl symbol of
        None \<Rightarrow> Some quantity
      | Some info \<Rightarrow>
          if step_size info = 0 then None
          else Some (round8 (of_int \<lfloor>quantity / step_size info\<rfloor> * step_size info)))"

definition round_price_to_tick :: "client \<Rightarrow> string \<Rightarrow> rat \<Rightarrow> rat option" where
  "round_price_to_tick cl symbol price =
     (case cl_symbol_info cl symbol of
        None \<Rightarrow> Some price
      | Some info \<Rightarrow>
          if tick_size info = 0 then None
          else Some (round8 (of_int \<lfloor>price / tick_size info\<rfloor> * tick_size info)))"

definition parse_order_response :: "order_response option \<Rightarrow> order_details option" where
  "parse_order_response order_response =
     (case order_response of
        None \<Rightarrow> None
      | Some resp \<Rightarrow>
          (case fills resp of
             None \<Rightarrow> None
           | Some [] \<Rightarrow> None
           | Some fs \<Rightarrow>
               let total_quantity = sum_list (map f_qty fs);
                   total_cost = sum_list (map (\<lambda>f. f_qty f * f_price f) fs);
                   avg_price = (if 0 < total_quantity then total_cost / total_quantity else 0);
                   total_commission = sum_list (map f_commission fs)
               in Some \<lparr>od_order_id = orderId resp, od_price = avg_price,
                         od_quantity = total_quantity, od_cost = total_cost,
                         od_commission = total_commission\<rparr>))"

text \<open>
  \<open>place_limit_order\<close>: the orders it submitted to the exchange (none or one) and the
  parsed answer. Every exception inside the \<open>try\<close> block ends in \<open>None\<close>.
\<close>

definition place_limit_order ::
    "client \<Rightarrow> string \<Rightarrow> string \<Rightarrow> rat \<Rightarrow> rat \<Rightarrow> order_request list \<times> order_details option" where
  "place_limit_order cl symbol side quantity price =
     (if \<not> cl_connected cl then ([], None)
      else if symbol \<notin> dom (cl_symbol_info cl) then ([], None)
      else
        case round_quantity_to_step cl symbol quantity of
          None \<Rightarrow> ([], None)
        | Some rounded_quantity \<Rightarrow>
            if rounded_quantity \<le> 0 then ([], None)
            else
              (case round_price_to_tick cl symbol price of
                 None \<Rightarrow> ([], None)
               | Some rounded_price \<Rightarrow>
                   let request = \<lparr>rq_symbol = symbol, rq_side = side,
                                   rq_quantity = rounded_quantity, rq_price = rounded_price\<rparr>
                   in ([request], parse_order_response (cl_create_order cl request))))"

text \<open>\<open>check_binance_btc_balance\<close>, the canary check.\<close>

definition check_binance_btc_balance :: "client \<Rightarrow> bool" where
  "check_binance_btc_balance cl =
     (let btc_balance = cl_asset_balance cl ''BTC''
      in case cl_current_price cl ''BTCUSDT'' of
           None \<Rightarrow> False
         | Some btc_price \<Rightarrow>
             if btc_balance * btc_price < BINANCE_BTC_MIN_VALUE then False else True)"

text \<open>\<open>check_portfolio_risk\<close>, given the total the client computed.\<close>

definition check_portfolio_risk :: "rat \<Rightarrow> bool \<times> rat" where
  "check_portfolio_risk total_value =
     (if total_value < SAFE_PORTFOLIO_VALUE_THRESHOLD then (False, total_value)
      else (True, total_value))"

section \<open>The orchestrator (main.py)\<close>

definition TRADE_AMOUNT_USDT :: rat where
  "TRADE_AMOUNT_USDT = 15"

definition LIMIT_ORDER_OFFSET :: rat where
  "LIMIT_ORDER_OFFSET = 1 / 10000"

definition quote_currency :: string where
  "quote_currency = ''USDT''"

text \<open>
  The stages of \<open>process_symbol\<close>, recorded as they are carried out: the canary check,
  the numbered steps 1 to 5 of the source, and the two execution paths of step 6.
\<close>

datatype stage =
    Canary_check
  | Fetch_data
  | Calculate_indicators
  | Determine_position
  | Crash_check
  | Generate_signal
  | Execute_buy
  | Execute_sell

text \<open>
  What the bot changes: the trade log file, its in-memory position flags (the only
  exchange is \<open>binance\<close>, so the flags are keyed by product), the orders submitted to the
  exchange, and the stages gone through.
\<close>

record bot_state =
  trade_log :: "trade_record list"
  open_positions :: "string \<rightharpoonup> bool"
  orders_sent :: "order_request list"
  stages :: "stage list"

definition enter :: "stage \<Rightarrow> bot_state \<Rightarrow> bot_state" where
  "enter s st = st\<lparr>stages := stages st @ [s]\<rparr>"

text \<open>\<open>log_trade\<close>: one row appended to the file, stamped with the clock's reading.\<close>

definition log_trade ::
    "nat \<Rightarrow> string \<Rightarrow> string \<Rightarrow> rat \<Rightarrow> rat \<Rightarrow> rat \<Rightarrow> rat \<Rightarrow> nat \<Rightarrow> rat \<Rightarrow> bot_state \<Rightarrow> bot_state" where
  "log_trade now symbol side price quantity cost commission order_id pnl st =
     st\<lparr>trade_log := trade_log st @
          [\<lparr>tr_timestamp = now, tr_order_id = order_id, tr_symbol = symbol,
            tr_side = upper side, tr_price = price, tr_quantity = quantity, tr_cost = cost,
            tr_commission = commission, tr_pnl = pnl\<rparr>]\<rparr>"

text \<open>
  \<open>execute_buy\<close>. \<open>not price\<close> holds for \<open>None\<close> and for \<open>0.0\<close>; an order counts as
  placed when details came back with a non-zero order id.
\<close>

definition execute_buy :: "client \<Rightarrow> nat \<Rightarrow> string \<Rightarrow> bot_state \<Rightarrow> bot_state" where
  "execute_buy cl now product_id st =
     (case cl_current_price cl product_id of
        None \<Rightarrow> st
      | Some price \<Rightarrow>
          if price = 0 then st
          else
            let quantity = TRADE_AMOUNT_USDT / price;
                limit_price = price * (1 - LIMIT_ORDER_OFFSET);
                (sent, order_details) = place_limit_order cl product_id ''buy'' quantity limit_price;
                st1 = st\<lparr>orders_sent := orders_sent st @ sent\<rparr>
            in case order_details of
                 None \<Rightarrow> st1
               | Some d \<Rightarrow>
                   if od_order_id d = 0 then st1
                   else
                     let st2 = log_trade now (''binance_'' @ product_id) ''BUY'' (od_price d)
                                 (od_quantity d) (od_cost d) (od_commission d) (od_order_id d) 0 st1
                     in st2\<lparr>open_positions := (open_positions st2)(product_id \<mapsto> True)\<rparr>)"

text \<open>
  How a call ends: it returns, or an exception leaves it. The state reached so far stays
  as it is in both cases.
\<close>

datatype outcome = Returned | Raised py_error

text \<open>
  \<open>execute_sell\<close>. \<open>last_buy\<close> is what the position resolver returned; reading
  \<open>last_buy['cost']\<close> when it is \<open>None\<close> raises TypeError.
\<close>

definition execute_sell ::
    "client \<Rightarrow> nat \<Rightarrow> string \<Rightarrow> trade_record option \<Rightarrow> bot_state \<Rightarrow> outcome \<times> bot_state" where
  "execute_sell cl now product_id last_buy st =
     (let base_currency = replace_str product_id quote_currency '''';
          balance = cl_asset_balance cl base_currency
      in if balance \<noteq> 0 \<and> 0 < balance then
           (case cl_current_price cl product_id of
              None \<Rightarrow> (Returned, st)
            | Some price \<Rightarrow>
                if price = 0 then (Returned, st)
                else
                  let limit_price = price * (1 + LIMIT_ORDER_OFFSET);
                      (sent, order_details) = place_limit_order cl product_id ''sell'' balance limit_price;
                      st1 = st\<lparr>orders_sent := orders_sent st @ sent\<rparr>
                  in case order_details of
                       None \<Rightarrow> (Returned, st1)
                     | Some d \<Rightarrow>
                         if od_order_id d = 0 then (Returned, st1)
                         else
                           (case last_buy of
                              None \<Rightarrow> (Raised TypeError, st1)
                            | Some b \<Rightarrow>
                                let buy_cost = tr_cost b;
                                    sell_value = od_cost d;
                                    net_pnl = sell_value - buy_cost;
                                    st2 = log_trade now (''binance_'' @ product_id) ''SELL'' (od_price d)
                                            balance sell_value (od_commission d) (od_order_id d) net_pnl st1
                                in (Returned,
                                    st2\<lparr>open_positions := (open_positions st2)(product_id \<mapsto> False)\<rparr>)))
         else (Returned, st))"

text \<open>
  \<open>process_symbol\<close> for the exchange \<open>binance\<close>. \<open>now\<close> is the clock's reading when a
  trade is logged.
\<close>

definition process_symbol ::
    "client \<Rightarrow> nat \<Rightarrow> string \<Rightarrow> bool \<Rightarrow> params \<Rightarrow> bot_state \<Rightarrow> outcome \<times> bot_state" where
  "process_symbol cl now product_id portfolio_safe strategy_params st =
     (let canary = contains_str ''BTC'' product_id;
          st0 = (if canary then enter Canary_check st else st)
      in if canary \<and> \<not> check_binance_btc_balance cl then (Returned, st0)
         else
           let klines = cl_historic_rates cl product_id (granularity strategy_params);
               df_raw = process_raw_klines klines;
               st1 = enter Fetch_data st0;
               df_with_indicators = calculate_indicators df_raw strategy_params;
               st2 = enter Calculate_indicators st1
           in case df_with_indicators of
                None \<Rightarrow> (Returned, st2)
              | Some df \<Rightarrow>
                  if df_close df = [] then (Returned, st2)
                  else
                    let log_symbol = ''binance_'' @ product_id;
                        last_buy = get_last_buy_for_symbol (trade_log st2) log_symbol;
                        st3 = enter Determine_position
                                (st2\<lparr>open_positions :=
                                       (open_positions st2)(product_id \<mapsto> last_buy \<noteq> None)\<rparr>);
                        st4 = enter Crash_check st3
                    in case check_market_crash (Some df) of
                         Inl e \<Rightarrow> (Raised e, st4)
                       | Inr True \<Rightarrow> (Returned, st4)
                       | Inr False \<Rightarrow>
                           let st5 = enter Generate_signal st4
                           in (case generate_signal (Some df) strategy_params of
                                 Inl e \<Rightarrow> (Raised e, st5)
                               | Inr (signal, reason) \<Rightarrow>
                                   if signal = BUY \<and> open_positions st5 product_id \<noteq> Some True
                                      \<and> portfolio_safe
                                     then (Returned, execute_buy cl now product_id (enter Execute_buy st5))
                                   else if signal = SELL \<and> open_positions st5 product_id = Some True
                                     then execute_sell cl now product_id last_buy (enter Execute_sell st5)
                                   else (Returned, st5)))"

section \<open>Notions used to state the properties of the orchestrator\<close>

text \<open>
  An order counts as placed when \<open>place_limit_order\<close> returned details with a non-zero
  order id: the test \<open>order_details and order_details.get('order_id')\<close>.
\<close>

definition order_placed :: "order_details option \<Rightarrow> bool" where
  "order_placed od = (case od of None \<Rightarrow> False | Some d \<Rightarrow> od_order_id d \<noteq> 0)"

text \<open>
  The call of \<open>place_limit_order\<close> that \<open>execute_buy\<close>, respectively \<open>execute_sell\<close>,
  makes for a product: nothing sent and no details when the function returns before the
  call.
\<close>

definition buy_order :: "client \<Rightarrow> string \<Rightarrow> order_request list \<times> order_details option" where
  "buy_order cl product_id =
     (case cl_current_price cl product_id of
        None \<Rightarrow> ([], None)
      | Some price \<Rightarrow>
          if price = 0 then ([], None)
          else place_limit_order cl product_id ''buy'' (TRADE_AMOUNT_USDT / price)
                 (price * (1 - LIMIT_ORDER_OFFSET)))"

definition sell_balance :: "client \<Rightarrow> string \<Rightarrow> rat" where
  "sell_balance cl product_id = cl_asset_balance cl (replace_str product_id quote_currency '''')"

definition sell_order :: "client \<Rightarrow> string \<Rightarrow> order_request list \<times> order_details option" where
  "sell_order cl product_id =
     (if 0 < sell_balance cl product_id then
        (case cl_current_price cl product_id of
           None \<Rightarrow> ([], None)
         | Some price \<Rightarrow>
             if price = 0 then ([], None)
             else place_limit_order cl product_id ''sell'' (sell_balance cl product_id)
                    (price * (1 + LIMIT_ORDER_OFFSET)))
      else ([], None))"

text \<open>The frame \<open>process_symbol\<close> works on: the fetched klines with the indicators.\<close>

definition fetched_frame :: "client \<Rightarrow> string \<Rightarrow> params \<Rightarrow> data_frame option" where
  "fetched_frame cl product_id p =
     calculate_indicators (process_raw_klines (cl_historic_rates cl product_id (granularity p))) p"

text \<open>The canary check stops the symbol: it applies to the product and fails.\<close>

definition canary_halts :: "client \<Rightarrow> string \<Rightarrow> bool" where
  "canary_halts cl product_id \<longleftrightarrow>
     contains_str ''BTC'' product_id \<and> \<not> check_binance_btc_balance cl"

text \<open>The stages a call added to the record.\<close>

definition new_stages :: "bot_state \<Rightarrow> bot_state \<Rightarrow> stage list" where
  "new_stages st st' = drop (length (stages st)) (stages st')"

definition canary_stage :: "string \<Rightarrow> stage list" where
  "canary_stage product_id = (if contains_str ''BTC'' product_id then [Canary_check] else [])"

text \<open>
  An exchange for the examples: every symbol trades in steps of \<open>step\<close> at ticks of one
  cent, every balance is \<open>balance\<close>, every price is \<open>price\<close>, the klines of every symbol
  close at \<open>closes\<close>, and an order is filled at once in one fill, or rejected.
\<close>

definition example_client :: "rat \<Rightarrow> rat \<Rightarrow> rat option \<Rightarrow> rat list \<Rightarrow> bool \<Rightarrow> client" where
  "example_client step balance price closes accepts =
     \<lparr>cl_connected = True,
      cl_symbol_info = (\<lambda>s. Some \<lparr>tick_size = 1 / 100, step_size = step\<rparr>),
      cl_asset_balance = (\<lambda>a. balance),
      cl_current_price = (\<lambda>s. price),
      cl_historic_rates =
        (\<lambda>s g. Some (map (\<lambda>(t, c). \<lparr>k_time = t, k_close = c\<rparr>) (zip [0..<length closes] closes))),
      cl_create_order =
        (\<lambda>rq. if accepts
              then Some \<lparr>orderId = 7,
                         fills = Some [\<lparr>f_qty = rq_quantity rq, f_price = rq_price rq,
                                        f_commission = 0\<rparr>]\<rparr>
              else None)\<rparr>"

definition example_state :: "trade_record list \<Rightarrow> bot_state" where
  "example_state ledger =
     \<lparr>trade_log = ledger, open_positions = Map.empty, orders_sent = [], stages = []\<rparr>"

text \<open>
  Ledger rows, price series and exchanges for the examples: a BUY of BTCUSDT; fourteen
  rising closes; an exchange on which the BTC holding is worth 0.1 USDT, below the
  canary floor; one whose last close fell by 15 percent; one with healthy balances.
\<close>

definition btc_buy :: trade_record where
  "btc_buy =
     \<lparr>tr_timestamp = 10, tr_order_id = 3, tr_symbol = ''binance_BTCUSDT'', tr_side = ''BUY'',
      tr_price = 100, tr_quantity = 1 / 1000, tr_cost = 1 / 10, tr_commission = 0, tr_pnl = 0\<rparr>"

definition rising_closes :: "rat list" where
  "rising_closes = [1, 2, 3, 4, 5, 6, 7, 8, 9, 10, 11, 12, 13, 14]"

definition canary_client :: client where
  "canary_client = example_client (1 / 1000) (1 / 1000) (Some 100) rising_closes True"

definition crash_client :: client where
  "crash_client = example_client (1 / 1000) 1 (Some 100) [100, 85] True"

definition healthy_client :: client where
  "healthy_client = example_client (1 / 1000) 1 (Some 100) rising_closes True"

definition rejecting_client :: client where
  "rejecting_client = example_client (1 / 1000) 1 (Some 100) rising_closes False"

definition coarse_step_client :: client where
  "coarse_step_client = example_client 1 1 (Some 100) rising_closes True"

definition priceless_client :: client where
  "priceless_client = example_client (1 / 1000) 1 None rising_closes True"


text \<open>
  A price series that dips and recovers, on which the aggressive profile signals BUY, and
  an exchange serving it.
\<close>

definition dip_closes :: "rat list" where
  "dip_closes = [10, 10, 10, 10, 10, 10, 10, 10, 10, 10, 10, 9, 9, 25 / 2]"

definition dip_client :: client where
  "dip_client = example_client (1 / 1000) 1 (Some 100) dip_closes True"

text \<open>
  The number of open positions of a symbol that a ledger records, read in file order: a
  BUY row opens one, a SELL row (a sale of the balance held) closes all.
\<close>

definition count_row :: "string \<Rightarrow> nat \<Rightarrow> trade_record \<Rightarrow> nat" where
  "count_row symbol n r =
     (if tr_symbol r = symbol \<and> tr_side r = ''SELL'' then 0
      else if tr_symbol r = symbol \<and> tr_side r = ''BUY'' then n + 1
      else n)"

definition open_buys :: "string \<Rightarrow> trade_record list \<Rightarrow> nat" where
  "open_buys symbol ledger = foldl (count_row symbol) 0 ledger"
section \<open>Position resolution\<close>

lemma tail1_Nil_iff: "tail1 xs = [] \<longleftrightarrow> xs = []"
  by (cases xs) (simp_all add: tail1_def)

lemma tail1_snoc: "tail1 (xs @ [x]) = [x]"
  by (simp add: tail1_def)

lemma tail1_last: "xs \<noteq> [] \<Longrightarrow> tail1 xs = [last xs]"
  by (induction xs rule: rev_induct) (simp_all add: tail1_snoc)

lemma find_rev_filter:
  "find P (rev xs) = (if filter P xs = [] then None else Some (last (filter P xs)))"
  by (induction xs rule: rev_induct) simp_all

lemma filter_side_symbol:
  "filter (\<lambda>r. tr_side r = sd) (filter (\<lambda>r. tr_symbol r = symbol) ledger) =
   filter (\<lambda>r. tr_symbol r = symbol \<and> tr_side r = sd) ledger"
  by (simp add: conj_commute)

lemma most_recent_filter:
  "most_recent sd symbol ledger =
     (let rows = filter (\<lambda>r. tr_side r = sd) (filter (\<lambda>r. tr_symbol r = symbol) ledger)
      in if rows = [] then None else Some (last rows))"
  by (simp add: most_recent_def find_rev_filter filter_side_symbol Let_def)

lemma resolve_last_rows:
  "(case tail1 bs of
      [] \<Rightarrow> None
    | b # _ \<Rightarrow>
        (case tail1 ss of
           [] \<Rightarrow> Some b
         | s # _ \<Rightarrow> if tr_timestamp s > tr_timestamp b then None else Some b)) =
   (if bs = [] then None
    else if ss = [] then Some (last bs)
    else if tr_timestamp (last bs) < tr_timestamp (last ss) then None else Some (last bs))"
proof (cases "bs = []")
  case True
  then show ?thesis by (simp add: tail1_def)
next
  case bs: False
  show ?thesis
  proof (cases "ss = []")
    case True
    with bs show ?thesis by (simp add: tail1_last) (simp add: tail1_def)
  next
    case False
    with bs show ?thesis by (simp add: tail1_last)
  qed
qed

lemma get_last_buy_for_symbol_eq:
  "get_last_buy_for_symbol ledger symbol =
     (case most_recent ''BUY'' symbol ledger of
        None \<Rightarrow> None
      | Some b \<Rightarrow>
          (case most_recent ''SELL'' symbol ledger of
             None \<Rightarrow> Some b
           | Some s \<Rightarrow> if tr_timestamp b < tr_timestamp s then None else Some b))"
  by (simp add: get_last_buy_for_symbol_def Let_def resolve_last_rows most_recent_def
      find_rev_filter)

text \<open>
  In a ledger whose timestamps never decrease, the record found last in file order is
  also the latest in time among the records of its symbol and side.
\<close>

lemma most_recent_is_latest:
  assumes "sorted (map tr_timestamp ledger)"
    and "most_recent sd symbol ledger = Some b"
    and "r \<in> set ledger" and "tr_symbol r = symbol" and "tr_side r = sd"
  shows "tr_timestamp r \<le> tr_timestamp b"
  using assms
proof (induction ledger rule: rev_induct)
  case Nil
  then show ?case by simp
next
  case (snoc x xs)
  show ?case
  proof (cases "tr_symbol x = symbol \<and> tr_side x = sd")
    case True
    with snoc.prems have "b = x"
      by (simp add: most_recent_def)
    with snoc.prems show ?thesis
      by (auto simp: sorted_append)
  next
    case False
    with snoc.prems have "most_recent sd symbol xs = Some b" and "r \<in> set xs"
      by (auto simp: most_recent_def)
    with snoc show ?thesis
      by (simp add: sorted_append)
  qed
qed

text \<open>
  Claim C1. For every ledger and symbol, the position resolver returns \<open>None\<close> (closed)
  when the symbol has no BUY row, and when the symbol's most recent SELL row is stamped
  strictly after its most recent BUY row; in every other case it returns that most
  recent BUY row (open). A SELL stamped at the very time of the BUY is not strictly
  after it, so the tie resolves to open.
\<close>

theorem get_last_buy_for_symbol_resolves:
  "(most_recent ''BUY'' symbol ledger = None \<longrightarrow>
      get_last_buy_for_symbol ledger symbol = None) \<and>
   (\<forall>b s. most_recent ''BUY'' symbol ledger = Some b \<and>
          most_recent ''SELL'' symbol ledger = Some s \<and>
          tr_timestamp b < tr_timestamp s \<longrightarrow>
      get_last_buy_for_symbol ledger symbol = None) \<and>
   (\<forall>b. most_recent ''BUY'' symbol ledger = Some b \<and>
        (most_recent ''SELL'' symbol ledger = None \<or>
         (\<exists>s. most_recent ''SELL'' symbol ledger = Some s \<and> tr_timestamp s \<le> tr_timestamp b)) \<longrightarrow>
      get_last_buy_for_symbol ledger symbol = Some b) \<and>
   (\<forall>b s. most_recent ''BUY'' symbol ledger = Some b \<and>
          most_recent ''SELL'' symbol ledger = Some s \<and>
          tr_timestamp s = tr_timestamp b \<longrightarrow>
      get_last_buy_for_symbol ledger symbol = Some b)"
  by (auto simp: get_last_buy_for_symbol_eq)

theorem get_last_buy_for_symbol_resolves_witness:
  "most_recent ''BUY'' ''binance_ETHUSDT'' [example_sell 5] = None \<and>
   get_last_buy_for_symbol [example_sell 5] ''binance_ETHUSDT'' = None \<and>
   most_recent ''BUY'' ''binance_ETHUSDT'' [example_buy 10, example_sell 20] = Some (example_buy 10) \<and>
   most_recent ''SELL'' ''binance_ETHUSDT'' [example_buy 10, example_sell 20] = Some (example_sell 20) \<and>
   tr_timestamp (example_buy 10) < tr_timestamp (example_sell 20) \<and>
   get_last_buy_for_symbol [example_buy 10, example_sell 20] ''binance_ETHUSDT'' = None \<and>
   most_recent ''SELL'' ''binance_ETHUSDT'' [example_buy 10, example_sell 20, example_buy 30] = Some (example_sell 20) \<and>
   get_last_buy_for_symbol [example_buy 10, example_sell 20, example_buy 30] ''binance_ETHUSDT''
     = Some (example_buy 30) \<and>
   most_recent ''SELL'' ''binance_ETHUSDT'' [example_buy 10] = None \<and>
   get_last_buy_for_symbol [example_buy 10] ''binance_ETHUSDT'' = Some (example_buy 10) \<and>
   tr_timestamp (example_sell 10) = tr_timestamp (example_buy 10) \<and>
   get_last_buy_for_symbol [example_buy 10, example_sell 10] ''binance_ETHUSDT'' = Some (example_buy 10)"
  using get_last_buy_for_symbol_resolves [of "''binance_ETHUSDT''" "[example_sell 5]"]
    get_last_buy_for_symbol_resolves [of "''binance_ETHUSDT''" "[example_buy 10, example_sell 20]"]
    get_last_buy_for_symbol_resolves [of "''binance_ETHUSDT''" "[example_buy 10, example_sell 20, example_buy 30]"]
    get_last_buy_for_symbol_resolves [of "''binance_ETHUSDT''" "[example_buy 10]"]
    get_last_buy_for_symbol_resolves [of "''binance_ETHUSDT''" "[example_buy 10, example_sell 10]"]
  by (simp add: most_recent_def example_buy_def example_sell_def)


section \<open>The oscillator\<close>

lemma length_rolling_mean [simp]: "length (rolling_mean w xs) = length xs"
  by (simp add: rolling_mean_def)

lemma rolling_mean_nth:
  "i < length xs \<Longrightarrow>
   rolling_mean w xs ! i =
     (if 1 \<le> w \<and> w \<le> i + 1 then Fin (sum_list (take w (drop (i + 1 - w) xs)) / of_nat w) else NaN)"
  by (simp add: rolling_mean_def)

lemma length_diff [simp]: "length (diff xs) = length xs"
  by (cases xs) simp_all

lemma gain_of_nonneg: "0 \<le> gain_of d"
  by (simp add: gain_of_def split: option.splits)

text \<open>An entry of the loss series is a loss or negative zero.\<close>

lemma loss_of_cases: "loss_of d = NZero \<or> (\<exists>a. loss_of d = Fin a \<and> 0 < a)"
  by (simp add: loss_of_def split: option.splits)

lemma sum_list_window_nonneg:
  assumes "\<forall>x \<in> set xs. (0::rat) \<le> x"
  shows "0 \<le> sum_list (take w (drop k xs))"
proof (rule sum_list_nonneg)
  fix x
  assume "x \<in> set (take w (drop k xs))"
  then have "x \<in> set xs"
    by (meson in_set_dropD in_set_takeD)
  with assms show "0 \<le> x" by blast
qed

text \<open>A rolling mean of non-negative values is NaN or a non-negative number.\<close>

lemma rolling_mean_nonneg:
  assumes "\<forall>x \<in> set xs. 0 \<le> x" and "i < length xs"
  shows "rolling_mean w xs ! i = NaN \<or> (\<exists>a. rolling_mean w xs ! i = Fin a \<and> 0 \<le> a)"
  using assms sum_list_window_nonneg [OF assms(1)]
  by (simp add: rolling_mean_nth)

lemma gain_mean_nonneg:
  "i < length closes \<Longrightarrow>
   gain_mean period closes ! i = NaN \<or> (\<exists>a. gain_mean period closes ! i = Fin a \<and> 0 \<le> a)"
  unfolding gain_mean_def by (rule rolling_mean_nonneg) (auto simp: gain_of_nonneg)

lemma length_rolling_mean_fl [simp]: "length (rolling_mean_fl w xs) = length xs"
  by (simp add: rolling_mean_fl_def)

lemma rolling_mean_fl_nth:
  "i < length xs \<Longrightarrow>
   rolling_mean_fl w xs ! i =
     (if 1 \<le> w \<and> w \<le> i + 1 then window_mean (take w (drop (i + 1 - w) xs)) else NaN)"
  by (simp add: rolling_mean_fl_def)

text \<open>On finite entries without a negative zero the two rolling means agree.\<close>

lemma foldl_fl_add_Fin: "foldl fl_add (Fin c) (map Fin ws) = Fin (c + sum_list ws)"
  by (induction ws arbitrary: c) (simp_all add: add.assoc)

lemma sum_list_constant:
  fixes x :: rat
  shows "\<forall>y \<in> set ws. y = x \<Longrightarrow> sum_list ws = of_nat (length ws) * x"
  by (induction ws) (simp_all add: algebra_simps)

lemma window_mean_Fin:
  assumes "ws \<noteq> []"
  shows "window_mean (map Fin ws) = Fin (sum_list ws / of_nat (length ws))"
proof -
  from assms obtain x xs where ws: "ws = x # xs"
    by (cases ws) auto
  show ?thesis
  proof (cases "list_all (\<lambda>y. y = Fin x) (map Fin ws)")
    case True
    then have "\<forall>y \<in> set ws. y = x"
      by (auto simp: list_all_iff)
    then have "sum_list ws = of_nat (length ws) * x"
      by (rule sum_list_constant)
    with assms have "sum_list ws / of_nat (length ws) = x"
      by simp
    with True show ?thesis
      by (simp add: window_mean_def ws)
  next
    case False
    then show ?thesis
      by (simp add: window_mean_def ws foldl_fl_add_Fin [of 0 "x # xs", simplified])
  qed
qed

lemma rolling_mean_fl_Fin: "rolling_mean_fl w (map Fin xs) = rolling_mean w xs"
proof (rule nth_equalityI)
  show "length (rolling_mean_fl w (map Fin xs)) = length (rolling_mean w xs)"
    by simp
next
  fix i
  assume "i < length (rolling_mean_fl w (map Fin xs))"
  then have i: "i < length xs"
    by simp
  show "rolling_mean_fl w (map Fin xs) ! i = rolling_mean w xs ! i"
  proof (cases "1 \<le> w \<and> w \<le> i + 1")
    case True
    with i have "i + 1 - w < length xs"
      by arith
    with True have "take w (drop (i + 1 - w) xs) \<noteq> []"
      by simp
    from window_mean_Fin [OF this] True i show ?thesis
      by (simp add: rolling_mean_fl_nth rolling_mean_nth take_map drop_map)
  next
    case False
    with i show ?thesis
      by (auto simp: rolling_mean_fl_nth rolling_mean_nth)
  qed
qed

text \<open>
  A rolling mean of the loss series is NaN, negative zero or a positive number: the
  sign of a zero loss mean is always negative.
\<close>

lemma foldl_fl_add_losses:
  assumes "\<forall>x \<in> set ws. x = NZero \<or> (\<exists>a. x = Fin a \<and> 0 < a)"
  shows "\<exists>s. foldl fl_add (Fin c) ws = Fin s \<and> c \<le> s \<and> ((\<exists>x \<in> set ws. x \<noteq> NZero) \<longrightarrow> c < s)"
  using assms
proof (induction ws arbitrary: c)
  case Nil
  then show ?case
    by simp
next
  case (Cons x xs)
  from Cons.prems have rest: "\<forall>y \<in> set xs. y = NZero \<or> (\<exists>a. y = Fin a \<and> 0 < a)"
    and x: "x = NZero \<or> (\<exists>a. x = Fin a \<and> 0 < a)"
    by simp_all
  from x show ?case
  proof
    assume "x = NZero"
    with Cons.IH [OF rest, of c] show ?thesis
      by auto
  next
    assume "\<exists>a. x = Fin a \<and> 0 < a"
    then obtain a where a: "x = Fin a" "0 < a"
      by blast
    from Cons.IH [OF rest, of "c + a"] obtain s
      where "foldl fl_add (Fin (c + a)) xs = Fin s" "c + a \<le> s"
      by blast
    with a show ?thesis
      by auto
  qed
qed

lemma window_mean_losses:
  assumes "\<forall>x \<in> set ws. x = NZero \<or> (\<exists>a. x = Fin a \<and> 0 < a)" and "ws \<noteq> []"
  shows "window_mean ws = NZero \<or> (\<exists>a. window_mean ws = Fin a \<and> 0 < a)"
proof -
  from assms(2) obtain x xs where ws: "ws = x # xs"
    by (cases ws) auto
  show ?thesis
  proof (cases "list_all (\<lambda>y. y = x) ws")
    case True
    then have "window_mean ws = x"
      by (simp add: window_mean_def ws)
    with assms(1) ws show ?thesis
      by simp
  next
    case False
    then obtain y where "y \<in> set ws" "y \<noteq> x"
      by (auto simp: list_all_iff)
    with ws have "\<exists>z \<in> set ws. z \<noteq> NZero"
      by (cases "x = NZero") auto
    with foldl_fl_add_losses [OF assms(1), of 0] obtain s
      where s: "foldl fl_add (Fin 0) ws = Fin s" "0 < s"
      by blast
    from False have "window_mean ws = fl_div (foldl fl_add (Fin 0) ws) (Fin (of_nat (length ws)))"
      by (simp add: window_mean_def ws)
    with s assms(2) have "window_mean ws = Fin (s / of_nat (length ws))"
      by simp
    moreover from s assms(2) have "0 < s / of_nat (length ws)"
      by simp
    ultimately show ?thesis
      by blast
  qed
qed

lemma loss_mean_cases:
  assumes "i < length closes"
  shows "loss_mean period closes ! i = NaN \<or> loss_mean period closes ! i = NZero \<or>
         (\<exists>a. loss_mean period closes ! i = Fin a \<and> 0 < a)"
proof (cases "1 \<le> period \<and> period \<le> i + 1")
  case True
  let ?ws = "take period (drop (i + 1 - period) (map loss_of (diff closes)))"
  have "\<forall>x \<in> set ?ws. x = NZero \<or> (\<exists>a. x = Fin a \<and> 0 < a)"
  proof
    fix x
    assume "x \<in> set ?ws"
    then have "x \<in> set (map loss_of (diff closes))"
      by (meson in_set_dropD in_set_takeD)
    then show "x = NZero \<or> (\<exists>a. x = Fin a \<and> 0 < a)"
      using loss_of_cases by auto
  qed
  moreover from True assms have "i + 1 - period < length closes"
    by arith
  with True have "?ws \<noteq> []"
    by simp
  ultimately have "window_mean ?ws = NZero \<or> (\<exists>a. window_mean ?ws = Fin a \<and> 0 < a)"
    by (rule window_mean_losses)
  with True assms show ?thesis
    by (simp add: loss_mean_def rolling_mean_fl_nth)
next
  case False
  with assms show ?thesis
    by (auto simp: loss_mean_def rolling_mean_fl_nth)
qed

lemma length_gain_mean [simp]: "length (gain_mean period closes) = length closes"
  by (simp add: gain_mean_def)

lemma length_loss_mean [simp]: "length (loss_mean period closes) = length closes"
  by (simp add: loss_mean_def)

lemma length_rs_filled [simp]: "length (rs_filled period closes) = length closes"
  by (simp add: rs_filled_def rs_raw_def)

lemma length_rsi_series [simp]: "length (rsi_series period closes) = length closes"
  by (simp add: rsi_series_def)

lemma rs_filled_nth:
  "i < length closes \<Longrightarrow>
   rs_filled period closes ! i =
     fillna0 (fl_div (gain_mean period closes ! i) (loss_mean period closes ! i))"
  by (simp add: rs_filled_def rs_raw_def)

lemma rsi_series_nth:
  "i < length closes \<Longrightarrow> rsi_series period closes ! i = rsi_of_rs (rs_filled period closes ! i)"
  by (simp add: rsi_series_def)

text \<open>
  What the ratio is where the loss mean is zero, which is \<open>-0.0\<close>: 0 when the gain mean
  is zero as well (\<open>0 / 0\<close> is NaN, which \<open>fillna\<close> replaces), and the negative infinity
  when there was a gain (\<open>fillna\<close> leaves an infinity alone).
\<close>

lemma rs_filled_loss_mean_zero:
  assumes "i < length closes" and "loss_mean period closes ! i = NZero"
    and "gain_mean period closes ! i = Fin g"
  shows "rs_filled period closes ! i = (if g = 0 then Fin 0 else NInf)"
proof -
  from gain_mean_nonneg [OF assms(1), of period] assms(3) have "0 \<le> g"
    by simp
  with assms show ?thesis
    by (simp add: rs_filled_nth)
qed

lemma rsi_formula_bounds:
  fixes r :: rat
  assumes "0 \<le> r"
  shows "0 \<le> 100 - 100 / (1 + r)" and "100 - 100 / (1 + r) \<le> 100"
proof -
  from assms have pos: "0 < 1 + r"
    by simp
  have "100 / (1 + r) \<le> 100"
    using assms by (simp add: pos_divide_le_eq [OF pos])
  then show "0 \<le> 100 - 100 / (1 + r)"
    by simp
  have "0 \<le> 100 / (1 + r)"
    using pos by simp
  then show "100 - 100 / (1 + r) \<le> 100"
    by simp
qed

lemma rsi_of_rs_Fin:
  "0 \<le> r \<Longrightarrow> rsi_of_rs (Fin r) = Fin (100 - 100 / (1 + r))"
  by (simp add: rsi_of_rs_def fl_sub_def)

lemma rsi_of_rs_NInf: "rsi_of_rs NInf = Fin 100"
  by (simp add: rsi_of_rs_def fl_sub_def)

lemma rsi_of_ratio_range:
  assumes "g = NaN \<or> (\<exists>a. g = Fin a \<and> 0 \<le> a)"
    and "l = NaN \<or> l = NZero \<or> (\<exists>b. l = Fin b \<and> 0 < b)"
  shows "\<exists>v. rsi_of_rs (fillna0 (fl_div g l)) = Fin v \<and> 0 \<le> v \<and> v \<le> 100"
proof -
  consider (nan) "g = NaN \<or> l = NaN"
    | (zero) a where "g = Fin a" "l = NZero" "0 \<le> a"
    | (fin) a b where "g = Fin a" "l = Fin b" "0 \<le> a" "0 < b"
    using assms by blast
  then show ?thesis
  proof cases
    case nan
    then have "fl_div g l = NaN"
      by (cases g; cases l) auto
    then show ?thesis
      by (simp add: rsi_of_rs_Fin)
  next
    case zero
    then show ?thesis
      by (cases "a = 0") (simp_all add: rsi_of_rs_Fin rsi_of_rs_NInf)
  next
    case fin
    from fin have r: "0 \<le> a / b"
      by simp
    from fin have "fillna0 (fl_div g l) = Fin (a / b)"
      by simp
    with rsi_of_rs_Fin [OF r] rsi_formula_bounds [OF r] show ?thesis
      by simp
  qed
qed

text \<open>Every value of the oscillator column is a number in the range from 0 to 100.\<close>

lemma rsi_series_range:
  assumes "i < length closes"
  shows "\<exists>v. rsi_series period closes ! i = Fin v \<and> 0 \<le> v \<and> v \<le> 100"
  using rsi_of_ratio_range [OF gain_mean_nonneg [OF assms, of period] loss_mean_cases [OF assms, of period]]
    assms
  by (simp add: rsi_series_nth rs_filled_nth)

text \<open>
  Claim C3 at the closes \<open>[1, 2, 3]\<close> with period 2. At the last step the rolling loss
  mean is zero (\<open>-0.0\<close>, as every zero loss mean is) and the rolling gain mean is 1; the
  ratio after \<open>fillna(0)\<close> is infinite (the negative infinity), not 0, and the
  oscillator stands at 100.
\<close>

theorem rs_infinite_at_zero_loss_mean:
  "loss_mean 2 [1, 2, 3] ! 2 = NZero \<and>
   gain_mean 2 [1, 2, 3] ! 2 = Fin 1 \<and>
   rs_filled 2 [1, 2, 3] ! 2 = NInf \<and>
   rs_filled 2 [1, 2, 3] ! 2 \<noteq> Fin 0 \<and>
   map_option (\<lambda>df. cell df (RSI 2) 2)
     (calculate_indicators (Some \<lparr>df_close = [1, 2, 3], df_cols = Map.empty\<rparr>)
        \<lparr>granularity = ''1m'', short_sma = 2, long_sma = 3, rsi_period = 2,
         rsi_overbought = 70, rsi_oversold = 30\<rparr>) = Some (Fin 100)"
  by code_simp


section \<open>The signal generator\<close>

lemma fl_less_not_isna: "fl_less a b \<Longrightarrow> \<not> isna a \<and> \<not> isna b"
  by (cases a; cases b) simp_all

lemma fl_less_asym: "fl_less a b \<Longrightarrow> \<not> fl_less b a"
  by (cases a; cases b) simp_all

text \<open>The frame \<open>calculate_indicators\<close> returns: the same closes, three columns assigned.\<close>

lemma calculate_indicators_Some:
  assumes "calculate_indicators (Some df) p = Some df'"
  shows "df_close df' = df_close df"
    and "df_cols df' =
           (df_cols df)
             (SMA (short_sma p) \<mapsto> rolling_mean (short_sma p) (df_close df),
              SMA (long_sma p) \<mapsto> rolling_mean (long_sma p) (df_close df),
              RSI (rsi_period p) \<mapsto> rsi_series (rsi_period p) (df_close df))"
  using assms by (auto simp: calculate_indicators_def Let_def)

lemma calculate_indicators_len:
  "calculate_indicators (Some df) p = Some df' \<Longrightarrow> df_len df' = df_len df"
  by (simp add: calculate_indicators_Some(1) df_len_def)

lemma calculate_indicators_columns:
  assumes "calculate_indicators (Some df) p = Some df'"
  shows "SMA (short_sma p) \<in> dom (df_cols df')"
    and "SMA (long_sma p) \<in> dom (df_cols df')"
    and "RSI (rsi_period p) \<in> dom (df_cols df')"
  by (simp_all add: calculate_indicators_Some(2) [OF assms])

lemma calculate_indicators_cell_sma:
  assumes "calculate_indicators (Some df) p = Some df'" and "i < df_len df"
  shows "cell df' (SMA (long_sma p)) i = rolling_mean (long_sma p) (df_close df) ! i"
    and "cell df' (SMA (short_sma p)) i = rolling_mean (short_sma p) (df_close df) ! i"
  using assms(2)
  by (simp_all add: cell_def calculate_indicators_Some(2) [OF assms(1)] df_len_def)

lemma calculate_indicators_cell_rsi:
  assumes "calculate_indicators (Some df) p = Some df'" and "i < df_len df"
  shows "cell df' (RSI (rsi_period p)) i = rsi_series (rsi_period p) (df_close df) ! i"
  using assms(2)
  by (simp add: cell_def calculate_indicators_Some(2) [OF assms(1)] df_len_def)

text \<open>A defined long average at the last row means the frame is as long as the window.\<close>

lemma defined_long_average_length:
  assumes "calculate_indicators (Some df) p = Some df'"
    and "1 \<le> df_len df'"
    and "\<not> isna (cell df' (SMA (long_sma p)) (df_len df' - 1))"
  shows "long_sma p \<le> df_len df'"
proof -
  have len: "df_len df' = df_len df"
    by (rule calculate_indicators_len [OF assms(1)])
  with assms(2) have i: "df_len df - 1 < df_len df"
    by simp
  have "cell df' (SMA (long_sma p)) (df_len df - 1) =
          rolling_mean (long_sma p) (df_close df) ! (df_len df - 1)"
    by (rule calculate_indicators_cell_sma(1) [OF assms(1) i])
  with assms(3) have "\<not> isna (rolling_mean (long_sma p) (df_close df) ! (df_len df - 1))"
    unfolding len by simp
  with i have "long_sma p \<le> df_len df - 1 + 1"
    by (auto simp: rolling_mean_nth df_len_def split: if_splits)
  with i show ?thesis
    unfolding len by simp
qed

text \<open>
  Past the early exits, with the crossunder and the overbought condition both true, the
  overbought rule answers.
\<close>

lemma generate_signal_overbought_first:
  assumes len: "long_sma p \<le> df_len df"
    and cols: "SMA (short_sma p) \<in> dom (df_cols df)" "SMA (long_sma p) \<in> dom (df_cols df)"
      "RSI (rsi_period p) \<in> dom (df_cols df)"
    and cu: "crossunder df p" and ob: "overbought df p"
  shows "generate_signal (Some df) p =
           Inr (SELL, Aggressive_Sell_RSI_Overbought (cell df (RSI (rsi_period p)) (df_len df - 1)))"
proof -
  from cu have two: "2 \<le> df_len df"
    and below: "fl_less (cell df (SMA (short_sma p)) (df_len df - 1))
                        (cell df (SMA (long_sma p)) (df_len df - 1))"
    by (simp_all add: crossunder_def)
  from below have defined: "\<not> isna (cell df (SMA (short_sma p)) (df_len df - 1))"
      "\<not> isna (cell df (SMA (long_sma p)) (df_len df - 1))"
    by (simp_all add: fl_less_not_isna)
  from below have no_cross_over:
    "\<not> fl_less (cell df (SMA (long_sma p)) (df_len df - 1)) (cell df (SMA (short_sma p)) (df_len df - 1))"
    by (rule fl_less_asym)
  from ob have above:
    "fl_less (Fin (rsi_overbought p)) (cell df (RSI (rsi_period p)) (df_len df - 1))"
    by (simp add: overbought_def)
  from len two cols defined no_cross_over above show ?thesis
    by (simp add: generate_signal_def Let_def)
qed

text \<open>
  Claim C2. Whenever the crossunder condition and the overbought condition hold together
  on the last two rows, \<open>generate_signal\<close> answers SELL with the overbought reason, not
  the Death Cross reason: on any frame that is past the early exits (as long as the long
  window, the three columns present), and on every frame \<open>calculate_indicators\<close> built,
  where nothing further has to be assumed.
\<close>

theorem generate_signal_overbought_before_crossunder:
  "(long_sma p \<le> df_len df \<and>
    SMA (short_sma p) \<in> dom (df_cols df) \<and> SMA (long_sma p) \<in> dom (df_cols df) \<and>
    RSI (rsi_period p) \<in> dom (df_cols df) \<and>
    crossunder df p \<and> overbought df p \<longrightarrow>
      generate_signal (Some df) p =
        Inr (SELL, Aggressive_Sell_RSI_Overbought (cell df (RSI (rsi_period p)) (df_len df - 1)))) \<and>
   (calculate_indicators (Some df0) p = Some df' \<and> crossunder df' p \<and> overbought df' p \<longrightarrow>
      generate_signal (Some df') p =
        Inr (SELL, Aggressive_Sell_RSI_Overbought (cell df' (RSI (rsi_period p)) (df_len df' - 1))))"
proof (intro conjI impI)
  assume "long_sma p \<le> df_len df \<and>
    SMA (short_sma p) \<in> dom (df_cols df) \<and> SMA (long_sma p) \<in> dom (df_cols df) \<and>
    RSI (rsi_period p) \<in> dom (df_cols df) \<and>
    crossunder df p \<and> overbought df p"
  then show "generate_signal (Some df) p =
        Inr (SELL, Aggressive_Sell_RSI_Overbought (cell df (RSI (rsi_period p)) (df_len df - 1)))"
    by (simp add: generate_signal_overbought_first)
next
  assume a: "calculate_indicators (Some df0) p = Some df' \<and> crossunder df' p \<and> overbought df' p"
  then have calc: "calculate_indicators (Some df0) p = Some df'"
    and cu: "crossunder df' p" and ob: "overbought df' p"
    by simp_all
  from cu have one: "1 \<le> df_len df'"
    and below: "fl_less (cell df' (SMA (short_sma p)) (df_len df' - 1))
                        (cell df' (SMA (long_sma p)) (df_len df' - 1))"
    by (simp_all add: crossunder_def)
  from fl_less_not_isna [OF below]
  have "\<not> isna (cell df' (SMA (long_sma p)) (df_len df' - 1))"
    by blast
  with one have "long_sma p \<le> df_len df'"
    by (rule defined_long_average_length [OF calc])
  from this calculate_indicators_columns [OF calc] cu ob
  show "generate_signal (Some df') p =
        Inr (SELL, Aggressive_Sell_RSI_Overbought (cell df' (RSI (rsi_period p)) (df_len df' - 1)))"
    by (rule generate_signal_overbought_first)
qed

lemma example_frame_built:
  "calculate_indicators (Some (frame_of [5, 15, 6, 7])) example_profile = Some example_frame"
proof -
  have "rolling_mean 2 [5, 15, 6, 7] = [NaN, Fin 10, Fin (21 / 2), Fin (13 / 2)]"
    "rolling_mean 3 [5, 15, 6, 7] = [NaN, NaN, Fin (26 / 3), Fin (28 / 3)]"
    "rsi_series 1 [5, 15, 6, 7] = [Fin 0, Fin 100, Fin 0, Fin 100]"
    by code_simp+
  then show ?thesis
    by (simp add: calculate_indicators_def Let_def frame_of_def example_profile_def example_frame_def)
qed

theorem generate_signal_overbought_before_crossunder_witness:
  "calculate_indicators (Some (frame_of [5, 15, 6, 7])) example_profile = Some example_frame \<and>
   long_sma example_profile \<le> df_len example_frame \<and>
   SMA (short_sma example_profile) \<in> dom (df_cols example_frame) \<and>
   SMA (long_sma example_profile) \<in> dom (df_cols example_frame) \<and>
   RSI (rsi_period example_profile) \<in> dom (df_cols example_frame) \<and>
   crossunder example_frame example_profile \<and> overbought example_frame example_profile \<and>
   generate_signal (Some example_frame) example_profile =
     Inr (SELL, Aggressive_Sell_RSI_Overbought (Fin 100))"
proof -
  have cu: "crossunder example_frame example_profile"
    and ob: "overbought example_frame example_profile"
    by code_simp+
  have guards: "long_sma example_profile \<le> df_len example_frame"
    "SMA (short_sma example_profile) \<in> dom (df_cols example_frame)"
    "SMA (long_sma example_profile) \<in> dom (df_cols example_frame)"
    "RSI (rsi_period example_profile) \<in> dom (df_cols example_frame)"
    by (simp_all add: example_profile_def example_frame_def df_len_def)
  have rsi: "cell example_frame (RSI (rsi_period example_profile)) (df_len example_frame - 1) = Fin 100"
    by code_simp
  from generate_signal_overbought_before_crossunder
         [of example_profile example_frame "frame_of [5, 15, 6, 7]" example_frame]
       example_frame_built cu ob guards
  have "generate_signal (Some example_frame) example_profile =
          Inr (SELL, Aggressive_Sell_RSI_Overbought
                 (cell example_frame (RSI (rsi_period example_profile)) (df_len example_frame - 1)))"
    by blast
  with example_frame_built cu ob guards show ?thesis
    unfolding rsi by blast
qed


lemma warming_frame_built:
  "calculate_indicators (Some (frame_of [1, 2, 3])) warming_profile = Some warming_frame"
proof -
  have "rolling_mean 5 [1, 2, 3] = [NaN, NaN, NaN]"
    "rolling_mean 2 [1, 2, 3] = [NaN, Fin (3 / 2), Fin (5 / 2)]"
    "rsi_series 1 [1, 2, 3] = [Fin 0, Fin 100, Fin 100]"
    by code_simp+
  then show ?thesis
    by (simp add: calculate_indicators_def Let_def frame_of_def warming_profile_def warming_frame_def)
qed

text \<open>
  The early exits. With no frame, and for every frame with fewer rows than the long
  window, the answer is HOLD with the reason ``Not enough data'', whatever the prices.
\<close>

lemma generate_signal_no_frame: "generate_signal None p = Inr (HOLD, Not_enough_data)"
  by (simp add: generate_signal_def)

lemma generate_signal_short_series:
  "df_len df < long_sma p \<Longrightarrow> generate_signal (Some df) p = Inr (HOLD, Not_enough_data)"
  by (simp add: generate_signal_def)

text \<open>
  On a frame of at least two rows that is past the first two checks, an undefined short
  or long average at the current step gives HOLD with the reason ``Indicators still
  calculating''.
\<close>

lemma generate_signal_warming_up:
  assumes "long_sma p \<le> df_len df" and "2 \<le> df_len df"
    and "SMA (short_sma p) \<in> dom (df_cols df)" "SMA (long_sma p) \<in> dom (df_cols df)"
      "RSI (rsi_period p) \<in> dom (df_cols df)"
    and "isna (cell df (SMA (short_sma p)) (df_len df - 1)) \<or>
         isna (cell df (SMA (long_sma p)) (df_len df - 1))"
  shows "generate_signal (Some df) p = Inr (HOLD, Indicators_still_calculating)"
  using assms by (auto simp: generate_signal_def Let_def)

lemma generate_signal_warming_up_example:
  "calculate_indicators (Some (frame_of [1, 2, 3])) warming_profile = Some warming_frame \<and>
   isna (cell warming_frame (SMA (short_sma warming_profile)) (df_len warming_frame - 1)) \<and>
   generate_signal (Some warming_frame) warming_profile = Inr (HOLD, Indicators_still_calculating)"
proof -
  have "isna (cell warming_frame (SMA (short_sma warming_profile)) (df_len warming_frame - 1))"
    "generate_signal (Some warming_frame) warming_profile = Inr (HOLD, Indicators_still_calculating)"
    by code_simp+
  with warming_frame_built show ?thesis
    by blast
qed

text \<open>
  When \<open>generate_signal\<close> raises: exactly on a frame that passed the first two checks
  and has fewer than two rows, where \<open>df.iloc[-2]\<close> (or \<open>df.iloc[-1]\<close>) is out of
  bounds. The long window is then at most 1, so under the two profiles of config.py,
  and under any profile whose long window is 2 or more, it always returns.
\<close>

lemma generate_signal_raises_iff:
  "generate_signal dfo p = Inl e \<longleftrightarrow>
     (\<exists>df. dfo = Some df \<and> e = IndexError \<and> long_sma p \<le> df_len df \<and> df_len df < 2 \<and>
        SMA (short_sma p) \<in> dom (df_cols df) \<and> SMA (long_sma p) \<in> dom (df_cols df) \<and>
        RSI (rsi_period p) \<in> dom (df_cols df))"
  by (cases dfo) (auto simp: generate_signal_def Let_def split: if_splits)

lemma generate_signal_returns:
  assumes "2 \<le> long_sma p"
  shows "\<exists>signal reason. generate_signal dfo p = Inr (signal, reason)"
proof (cases "generate_signal dfo p")
  case (Inl e)
  with generate_signal_raises_iff [of dfo p e] assms show ?thesis
    by auto
next
  case (Inr r)
  then show ?thesis
    by (cases r) simp
qed

lemma generate_signal_returns_configured:
  "\<exists>signal reason. generate_signal dfo STRATEGY_MODERATE = Inr (signal, reason)"
  "\<exists>signal reason. generate_signal dfo STRATEGY_AGGRESSIVE = Inr (signal, reason)"
  by (rule generate_signal_returns, simp add: STRATEGY_MODERATE_def STRATEGY_AGGRESSIVE_def)+


section \<open>The crash check\<close>

lemma check_market_crash_two_rows:
  "2 \<le> df_len df \<Longrightarrow>
   check_market_crash (Some df) =
     (let last_close = df_close df ! (df_len df - 1);
          prev_close = df_close df ! (df_len df - 2)
      in if prev_close = 0 then Inr False
         else if price_change_percent last_close prev_close < MARKET_CRASH_THRESHOLD_PERCENT
           then Inl AttributeError
         else Inr False)"
  by (auto simp: check_market_crash_def df_len_def)

text \<open>
  Claim C4 as stated fails on its second example: in the closes \<open>[100, 0]\<close> the previous
  close is 100 and the last is 0, a change of \<open>-100\<close> percent, which is below the
  threshold; the check does not report no-crash there.
\<close>

theorem check_market_crash_100_0_counterexample:
  "check_market_crash (Some \<lparr>df_close = [100, 0], df_cols = Map.empty\<rparr>) \<noteq> Inr False"
  by (simp add: check_market_crash_def df_len_def price_change_percent_def
      MARKET_CRASH_THRESHOLD_PERCENT_def)

text \<open>
  Claim C4, amended. Given at least two closes and a previous close other than 0, the
  check reports no-crash exactly when the percent change \<open>(last - prev) / prev * 100\<close> is
  not below the configured threshold of \<open>-10\<close>; when the previous close is 0 it reports
  no-crash. The closes \<open>[100, 100]\<close> give no-crash, the closes \<open>[0, 100]\<close> (previous
  close 0) give no-crash, and neither \<open>[100, 0]\<close> nor \<open>[100, 85]\<close> gives no-crash.
\<close>

theorem check_market_crash_no_crash_iff:
  "(2 \<le> df_len df \<and> df_close df ! (df_len df - 2) \<noteq> 0 \<longrightarrow>
      (check_market_crash (Some df) = Inr False \<longleftrightarrow>
       \<not> price_change_percent (df_close df ! (df_len df - 1)) (df_close df ! (df_len df - 2))
            < MARKET_CRASH_THRESHOLD_PERCENT)) \<and>
   (2 \<le> df_len df \<and> df_close df ! (df_len df - 2) = 0 \<longrightarrow>
      check_market_crash (Some df) = Inr False) \<and>
   MARKET_CRASH_THRESHOLD_PERCENT = - 10 \<and>
   check_market_crash (Some \<lparr>df_close = [100, 100], df_cols = Map.empty\<rparr>) = Inr False \<and>
   check_market_crash (Some \<lparr>df_close = [0, 100], df_cols = Map.empty\<rparr>) = Inr False \<and>
   check_market_crash (Some \<lparr>df_close = [100, 0], df_cols = Map.empty\<rparr>) \<noteq> Inr False \<and>
   check_market_crash (Some \<lparr>df_close = [100, 85], df_cols = Map.empty\<rparr>) \<noteq> Inr False"
proof -
  have general: "2 \<le> df_len df \<and> df_close df ! (df_len df - 2) \<noteq> 0 \<longrightarrow>
      (check_market_crash (Some df) = Inr False \<longleftrightarrow>
       \<not> price_change_percent (df_close df ! (df_len df - 1)) (df_close df ! (df_len df - 2))
            < MARKET_CRASH_THRESHOLD_PERCENT)"
    by (simp add: check_market_crash_two_rows Let_def)
  have zero: "2 \<le> df_len df \<and> df_close df ! (df_len df - 2) = 0 \<longrightarrow>
      check_market_crash (Some df) = Inr False"
    by (simp add: check_market_crash_two_rows Let_def)
  have examples:
    "check_market_crash (Some \<lparr>df_close = [100, 100], df_cols = Map.empty\<rparr>) = Inr False"
    "check_market_crash (Some \<lparr>df_close = [0, 100], df_cols = Map.empty\<rparr>) = Inr False"
    "check_market_crash (Some \<lparr>df_close = [100, 0], df_cols = Map.empty\<rparr>) \<noteq> Inr False"
    "check_market_crash (Some \<lparr>df_close = [100, 85], df_cols = Map.empty\<rparr>) \<noteq> Inr False"
    by (simp_all add: check_market_crash_def df_len_def price_change_percent_def
        MARKET_CRASH_THRESHOLD_PERCENT_def)
  from general zero examples show ?thesis
    by (simp add: MARKET_CRASH_THRESHOLD_PERCENT_def)
qed

theorem check_market_crash_no_crash_iff_witness:
  "2 \<le> df_len \<lparr>df_close = [100, 95], df_cols = Map.empty\<rparr> \<and>
   df_close \<lparr>df_close = [100, 95], df_cols = Map.empty\<rparr> ! 0 \<noteq> 0 \<and>
   \<not> price_change_percent 95 100 < MARKET_CRASH_THRESHOLD_PERCENT \<and>
   check_market_crash (Some \<lparr>df_close = [100, 95], df_cols = Map.empty\<rparr>) = Inr False \<and>
   2 \<le> df_len \<lparr>df_close = [3, 0, 7], df_cols = Map.empty\<rparr> \<and>
   df_close \<lparr>df_close = [3, 0, 7], df_cols = Map.empty\<rparr> ! 1 = 0 \<and>
   check_market_crash (Some \<lparr>df_close = [3, 0, 7], df_cols = Map.empty\<rparr>) = Inr False"
proof -
  let ?a = "\<lparr>df_close = [100, 95], df_cols = Map.empty\<rparr>"
  let ?b = "\<lparr>df_close = [3, 0, 7], df_cols = Map.empty\<rparr>"
  have len_a: "df_len ?a = 2" and len_b: "df_len ?b = 3"
    by (simp_all add: df_len_def)
  have prev_a: "df_close ?a ! (df_len ?a - 2) = 100" and last_a: "df_close ?a ! (df_len ?a - 1) = 95"
    by (simp_all add: len_a)
  have prev_b: "df_close ?b ! (df_len ?b - 2) = 0"
    by (simp add: len_b)
  have pct: "\<not> price_change_percent 95 100 < MARKET_CRASH_THRESHOLD_PERCENT"
    by (simp add: price_change_percent_def MARKET_CRASH_THRESHOLD_PERCENT_def)
  have "2 \<le> df_len ?a \<and> df_close ?a ! (df_len ?a - 2) \<noteq> 0"
    by (simp add: len_a)
  with check_market_crash_no_crash_iff [of ?a] pct
  have res_a: "check_market_crash (Some ?a) = Inr False"
    unfolding prev_a last_a by blast
  have "2 \<le> df_len ?b \<and> df_close ?b ! (df_len ?b - 2) = 0"
    using prev_b by (simp add: len_b)
  with check_market_crash_no_crash_iff [of ?b]
  have res_b: "check_market_crash (Some ?b) = Inr False"
    by blast
  from len_a len_b pct res_a res_b show ?thesis
    by simp
qed


section \<open>Order execution\<close>

lemma upper_BUY: "upper ''BUY'' = ''BUY''"
  by (simp add: upper_def upper_char_def)

lemma upper_SELL: "upper ''SELL'' = ''SELL''"
  by (simp add: upper_def upper_char_def)

lemma order_placed_simps [simp]:
  "order_placed None = False"
  "order_placed (Some d) = (od_order_id d \<noteq> 0)"
  by (simp_all add: order_placed_def)

text \<open>\<open>place_limit_order\<close> submits at most one order, and none without which it has details.\<close>

lemma place_limit_order_sent:
  "length (fst (place_limit_order cl symbol side quantity price)) \<le> 1"
  by (simp add: place_limit_order_def Let_def split: option.splits)

lemma place_limit_order_details:
  assumes "place_limit_order cl symbol side quantity price = (sent, Some d)"
  shows "\<exists>q pr. round_quantity_to_step cl symbol quantity = Some q \<and> 0 < q \<and>
           round_price_to_tick cl symbol price = Some pr \<and>
           sent = [\<lparr>rq_symbol = symbol, rq_side = side, rq_quantity = q, rq_price = pr\<rparr>] \<and>
           parse_order_response
             (cl_create_order cl \<lparr>rq_symbol = symbol, rq_side = side, rq_quantity = q, rq_price = pr\<rparr>)
             = Some d"
  using assms
  by (auto simp: place_limit_order_def Let_def split: option.splits if_splits)


lemma place_limit_order_rounds_to_zero:
  assumes "round_quantity_to_step cl symbol quantity = Some q" and "q \<le> 0"
  shows "place_limit_order cl symbol side quantity price = ([], None)"
  using assms by (simp add: place_limit_order_def)

lemma place_limit_order_rejected:
  assumes "\<forall>rq. cl_create_order cl rq = None"
  shows "snd (place_limit_order cl symbol side quantity price) = None"
  using assms
  by (simp add: place_limit_order_def Let_def parse_order_response_def split: option.splits)

lemma buy_order_sent: "length (fst (buy_order cl product_id)) \<le> 1"
  using place_limit_order_sent [of cl product_id "''buy''"]
  by (auto simp: buy_order_def split: option.splits)

lemma sell_order_sent: "length (fst (sell_order cl product_id)) \<le> 1"
  using place_limit_order_sent [of cl product_id "''sell''"]
  by (auto simp: sell_order_def split: option.splits)

text \<open>\<open>execute_buy\<close> and \<open>execute_sell\<close> in terms of the one order they place.\<close>

lemma execute_buy_eq:
  "execute_buy cl now product_id st =
     (let (sent, od) = buy_order cl product_id;
          st1 = st\<lparr>orders_sent := orders_sent st @ sent\<rparr>
      in case od of
           None \<Rightarrow> st1
         | Some d \<Rightarrow>
             if od_order_id d = 0 then st1
             else (log_trade now (''binance_'' @ product_id) ''BUY'' (od_price d) (od_quantity d)
                     (od_cost d) (od_commission d) (od_order_id d) 0 st1)
                  \<lparr>open_positions := (open_positions st1)(product_id \<mapsto> True)\<rparr>)"
  by (simp add: execute_buy_def buy_order_def Let_def log_trade_def split: option.splits prod.splits)

lemma execute_sell_eq:
  "execute_sell cl now product_id last_buy st =
     (let (sent, od) = sell_order cl product_id;
          st1 = st\<lparr>orders_sent := orders_sent st @ sent\<rparr>
      in case od of
           None \<Rightarrow> (Returned, st1)
         | Some d \<Rightarrow>
             if od_order_id d = 0 then (Returned, st1)
             else
               (case last_buy of
                  None \<Rightarrow> (Raised TypeError, st1)
                | Some b \<Rightarrow>
                    (Returned,
                     (log_trade now (''binance_'' @ product_id) ''SELL'' (od_price d)
                        (sell_balance cl product_id) (od_cost d) (od_commission d) (od_order_id d)
                        (od_cost d - tr_cost b) st1)
                     \<lparr>open_positions := (open_positions st1)(product_id \<mapsto> False)\<rparr>)))"
  by (simp add: execute_sell_def sell_order_def sell_balance_def Let_def log_trade_def
      split: option.splits prod.splits)

lemma execute_buy_placed:
  assumes "buy_order cl product_id = (sent, Some d)" and "od_order_id d \<noteq> 0"
  shows "execute_buy cl now product_id st =
           st\<lparr>orders_sent := orders_sent st @ sent,
              trade_log := trade_log st @
                [\<lparr>tr_timestamp = now, tr_order_id = od_order_id d,
                  tr_symbol = ''binance_'' @ product_id, tr_side = ''BUY'', tr_price = od_price d,
                  tr_quantity = od_quantity d, tr_cost = od_cost d,
                  tr_commission = od_commission d, tr_pnl = 0\<rparr>],
              open_positions := (open_positions st)(product_id \<mapsto> True)\<rparr>"
  using assms by (simp add: execute_buy_eq log_trade_def upper_BUY)

lemma execute_buy_not_placed:
  assumes "\<not> order_placed (snd (buy_order cl product_id))"
  shows "execute_buy cl now product_id st =
           st\<lparr>orders_sent := orders_sent st @ fst (buy_order cl product_id)\<rparr>"
  using assms
  by (cases "buy_order cl product_id") (auto simp: execute_buy_eq Let_def split: option.splits)

lemma execute_sell_placed:
  assumes "sell_order cl product_id = (sent, Some d)" and "od_order_id d \<noteq> 0"
  shows "execute_sell cl now product_id (Some b) st =
           (Returned,
            st\<lparr>orders_sent := orders_sent st @ sent,
               trade_log := trade_log st @
                 [\<lparr>tr_timestamp = now, tr_order_id = od_order_id d,
                   tr_symbol = ''binance_'' @ product_id, tr_side = ''SELL'', tr_price = od_price d,
                   tr_quantity = sell_balance cl product_id, tr_cost = od_cost d,
                   tr_commission = od_commission d, tr_pnl = od_cost d - tr_cost b\<rparr>],
               open_positions := (open_positions st)(product_id \<mapsto> False)\<rparr>)"
  using assms by (simp add: execute_sell_eq log_trade_def upper_SELL)

lemma execute_sell_not_placed:
  assumes "\<not> order_placed (snd (sell_order cl product_id))"
  shows "execute_sell cl now product_id last_buy st =
           (Returned, st\<lparr>orders_sent := orders_sent st @ fst (sell_order cl product_id)\<rparr>)"
  using assms
  by (cases "sell_order cl product_id") (auto simp: execute_sell_eq Let_def split: option.splits)

lemma execute_buy_orders_sent:
  "orders_sent (execute_buy cl now product_id st) = orders_sent st @ fst (buy_order cl product_id)"
  by (cases "buy_order cl product_id")
     (auto simp: execute_buy_eq Let_def log_trade_def split: option.splits)

lemma execute_sell_orders_sent:
  "orders_sent (snd (execute_sell cl now product_id last_buy st)) =
     orders_sent st @ fst (sell_order cl product_id)"
  by (cases "sell_order cl product_id")
     (auto simp: execute_sell_eq Let_def log_trade_def split: option.splits)

lemma execute_buy_stages: "stages (execute_buy cl now product_id st) = stages st"
  by (cases "buy_order cl product_id")
     (auto simp: execute_buy_eq Let_def log_trade_def split: option.splits)

lemma execute_sell_stages: "stages (snd (execute_sell cl now product_id last_buy st)) = stages st"
  by (cases "sell_order cl product_id")
     (auto simp: execute_sell_eq Let_def log_trade_def split: option.splits)

lemma execute_buy_log_length:
  "length (trade_log (execute_buy cl now product_id st)) \<le> length (trade_log st) + 1"
  by (cases "buy_order cl product_id")
     (auto simp: execute_buy_eq Let_def log_trade_def split: option.splits)

lemma execute_sell_log_length:
  "length (trade_log (snd (execute_sell cl now product_id last_buy st))) \<le> length (trade_log st) + 1"
  by (cases "sell_order cl product_id")
     (auto simp: execute_sell_eq Let_def log_trade_def split: option.splits)


lemma execute_buy_log:
  "trade_log (execute_buy cl now product_id st) = trade_log st \<or>
   (\<exists>r. trade_log (execute_buy cl now product_id st) = trade_log st @ [r])"
  by (cases "buy_order cl product_id")
     (auto simp: execute_buy_eq Let_def log_trade_def split: option.splits)

lemma execute_sell_log:
  "trade_log (snd (execute_sell cl now product_id last_buy st)) = trade_log st \<or>
   (\<exists>r. trade_log (snd (execute_sell cl now product_id last_buy st)) = trade_log st @ [r])"
  by (cases "sell_order cl product_id")
     (auto simp: execute_sell_eq Let_def log_trade_def split: option.splits)


lemma sell_order_nothing:
  assumes "sell_balance cl product_id \<le> 0 \<or> cl_current_price cl product_id = None \<or>
           cl_current_price cl product_id = Some 0"
  shows "sell_order cl product_id = ([], None)"
  using assms by (auto simp: sell_order_def)












section \<open>One symbol in one cycle\<close>

text \<open>\<open>process_symbol\<close> with its intermediate states written out.\<close>

lemma process_symbol_eq:
  "process_symbol cl now product_id portfolio_safe p st =
     (if canary_halts cl product_id
        then (Returned, st\<lparr>stages := stages st @ canary_stage product_id\<rparr>)
      else
        case fetched_frame cl product_id p of
          None \<Rightarrow>
            (Returned, st\<lparr>stages := stages st @ canary_stage product_id @
                                    [Fetch_data, Calculate_indicators]\<rparr>)
        | Some df \<Rightarrow>
            if df_close df = []
              then (Returned, st\<lparr>stages := stages st @ canary_stage product_id @
                                          [Fetch_data, Calculate_indicators]\<rparr>)
            else
              let last_buy = get_last_buy_for_symbol (trade_log st) (''binance_'' @ product_id);
                  st4 = st\<lparr>open_positions := (open_positions st)(product_id \<mapsto> last_buy \<noteq> None),
                           stages := stages st @ canary_stage product_id @
                             [Fetch_data, Calculate_indicators, Determine_position, Crash_check]\<rparr>
              in case check_market_crash (Some df) of
                   Inl e \<Rightarrow> (Raised e, st4)
                 | Inr True \<Rightarrow> (Returned, st4)
                 | Inr False \<Rightarrow>
                     let st5 = st4\<lparr>stages := stages st4 @ [Generate_signal]\<rparr>
                     in (case generate_signal (Some df) p of
                           Inl e \<Rightarrow> (Raised e, st5)
                         | Inr (signal, reason) \<Rightarrow>
                             if signal = BUY \<and> last_buy = None \<and> portfolio_safe
                               then (Returned, execute_buy cl now product_id
                                                 (st5\<lparr>stages := stages st5 @ [Execute_buy]\<rparr>))
                             else if signal = SELL \<and> last_buy \<noteq> None
                               then execute_sell cl now product_id last_buy
                                      (st5\<lparr>stages := stages st5 @ [Execute_sell]\<rparr>)
                             else (Returned, st5)))"
  by (auto simp: process_symbol_def Let_def enter_def canary_halts_def fetched_frame_def
      canary_stage_def split: option.splits sum.splits bool.splits prod.splits)

text \<open>A fetched frame is never empty: an empty response gives no frame at all.\<close>

lemma fetched_frame_nonempty:
  assumes "fetched_frame cl product_id p = Some df"
  shows "df_close df \<noteq> []"
proof -
  from assms obtain df0 where
    raw: "process_raw_klines (cl_historic_rates cl product_id (granularity p)) = Some df0"
    and calc: "calculate_indicators (Some df0) p = Some df"
    by (cases "process_raw_klines (cl_historic_rates cl product_id (granularity p))")
       (auto simp: fetched_frame_def calculate_indicators_def)
  from raw have "length (df_close df0) \<noteq> 0"
    by (auto simp: process_raw_klines_def split: option.splits list.splits)
  with calculate_indicators_Some(1) [OF calc] show ?thesis
    by simp
qed

text \<open>The stages of a run, case by case.\<close>

lemma new_stages_append [simp]:
  "new_stages st (st'\<lparr>stages := stages st @ xs\<rparr>) = xs"
  by (simp add: new_stages_def)

lemma process_symbol_halted:
  assumes "canary_halts cl product_id"
  shows "process_symbol cl now product_id portfolio_safe p st =
           (Returned, st\<lparr>stages := stages st @ canary_stage product_id\<rparr>)"
  using assms by (simp add: process_symbol_eq)

lemma process_symbol_no_data:
  assumes "\<not> canary_halts cl product_id" and "fetched_frame cl product_id p = None"
  shows "process_symbol cl now product_id portfolio_safe p st =
           (Returned, st\<lparr>stages := stages st @ canary_stage product_id @
                                   [Fetch_data, Calculate_indicators]\<rparr>)"
  using assms by (simp add: process_symbol_eq)

lemma process_symbol_crash:
  assumes "\<not> canary_halts cl product_id" and "fetched_frame cl product_id p = Some df"
    and "check_market_crash (Some df) \<noteq> Inr False"
  shows "snd (process_symbol cl now product_id portfolio_safe p st) =
           st\<lparr>open_positions := (open_positions st)
                  (product_id \<mapsto> get_last_buy_for_symbol (trade_log st) (''binance_'' @ product_id) \<noteq> None),
              stages := stages st @ canary_stage product_id @
                [Fetch_data, Calculate_indicators, Determine_position, Crash_check]\<rparr>"
  using assms fetched_frame_nonempty [OF assms(2)]
  by (auto simp: process_symbol_eq Let_def split: sum.splits bool.splits)

lemma process_symbol_signal:
  assumes "\<not> canary_halts cl product_id" and "fetched_frame cl product_id p = Some df"
    and "check_market_crash (Some df) = Inr False"
  shows "process_symbol cl now product_id portfolio_safe p st =
           (let last_buy = get_last_buy_for_symbol (trade_log st) (''binance_'' @ product_id);
                st5 = st\<lparr>open_positions := (open_positions st)(product_id \<mapsto> last_buy \<noteq> None),
                         stages := stages st @ canary_stage product_id @
                           [Fetch_data, Calculate_indicators, Determine_position, Crash_check,
                            Generate_signal]\<rparr>
            in case generate_signal (Some df) p of
                 Inl e \<Rightarrow> (Raised e, st5)
               | Inr (signal, reason) \<Rightarrow>
                   if signal = BUY \<and> last_buy = None \<and> portfolio_safe
                     then (Returned, execute_buy cl now product_id
                                       (st5\<lparr>stages := stages st5 @ [Execute_buy]\<rparr>))
                   else if signal = SELL \<and> last_buy \<noteq> None
                     then execute_sell cl now product_id last_buy
                            (st5\<lparr>stages := stages st5 @ [Execute_sell]\<rparr>)
                   else (Returned, st5))"
  using assms fetched_frame_nonempty [OF assms(2)]
  by (auto simp: process_symbol_eq Let_def split: sum.splits prod.splits)


text \<open>One run of \<open>process_symbol\<close> submits at most one order and appends at most one row.\<close>

lemma process_symbol_orders_sent:
  "length (orders_sent (snd (process_symbol cl now product_id portfolio_safe p st)))
     \<le> length (orders_sent st) + 1"
  using buy_order_sent [of cl product_id] sell_order_sent [of cl product_id]
  by (auto simp: process_symbol_eq Let_def execute_buy_orders_sent execute_sell_orders_sent
      split: option.splits sum.splits bool.splits prod.splits)

lemma process_symbol_log:
  "trade_log (snd (process_symbol cl now product_id portfolio_safe p st)) = trade_log st \<or>
   (\<exists>r. trade_log (snd (process_symbol cl now product_id portfolio_safe p st)) = trade_log st @ [r])"
proof -
  have buy: "\<And>s. trade_log s = trade_log st \<Longrightarrow>
      trade_log (execute_buy cl now product_id s) = trade_log st \<or>
      (\<exists>r. trade_log (execute_buy cl now product_id s) = trade_log st @ [r])"
    using execute_buy_log by metis
  have sell: "\<And>s lb. trade_log s = trade_log st \<Longrightarrow>
      trade_log (snd (execute_sell cl now product_id lb s)) = trade_log st \<or>
      (\<exists>r. trade_log (snd (execute_sell cl now product_id lb s)) = trade_log st @ [r])"
    using execute_sell_log by metis
  show ?thesis
    unfolding process_symbol_eq Let_def
    by (auto split: option.splits sum.splits bool.splits prod.splits intro!: buy sell)
qed

lemma buy_order_no_price:
  "cl_current_price cl product_id = None \<Longrightarrow> buy_order cl product_id = ([], None)"
  by (simp add: buy_order_def)

lemma buy_order_rejected:
  assumes "\<forall>rq. cl_create_order cl rq = None"
  shows "\<not> order_placed (snd (buy_order cl product_id))"
  using place_limit_order_rejected [OF assms]
  by (simp add: buy_order_def split: option.splits)

lemma sell_order_rejected:
  assumes "\<forall>rq. cl_create_order cl rq = None"
  shows "\<not> order_placed (snd (sell_order cl product_id))"
  using place_limit_order_rejected [OF assms]
  by (simp add: sell_order_def split: option.splits)

lemma execute_buy_appends:
  assumes "order_placed (snd (buy_order cl product_id))"
  shows "\<exists>r. trade_log (execute_buy cl now product_id st) = trade_log st @ [r] \<and>
             tr_side r = ''BUY'' \<and> tr_symbol r = ''binance_'' @ product_id"
proof -
  from assms obtain sent d where "buy_order cl product_id = (sent, Some d)" and "od_order_id d \<noteq> 0"
    by (cases "buy_order cl product_id") (auto simp: order_placed_def split: option.splits)
  from execute_buy_placed [OF this] show ?thesis
    by simp
qed

lemma execute_sell_appends:
  assumes "order_placed (snd (sell_order cl product_id))"
  shows "\<exists>r. trade_log (snd (execute_sell cl now product_id (Some b) st)) = trade_log st @ [r] \<and>
             tr_side r = ''SELL'' \<and> tr_symbol r = ''binance_'' @ product_id"
proof -
  from assms obtain sent d where "sell_order cl product_id = (sent, Some d)" and "od_order_id d \<noteq> 0"
    by (cases "sell_order cl product_id") (auto simp: order_placed_def split: option.splits)
  from execute_sell_placed [OF this] show ?thesis
    by simp
qed

text \<open>
  Claim C9. An order that is placed (details came back with an order id) makes
  \<open>execute_buy\<close>, respectively \<open>execute_sell\<close>, append exactly one row to the ledger, a
  BUY or a SELL of the symbol. An order that is not placed leaves the ledger and the
  position flags as they were, so the position the resolver reads from the ledger is the
  same; that is the case when the price is unavailable (no order is sent at all), when
  the quantity rounds to zero or less at the step size (no order is sent), and when the
  exchange rejects the order. Neither function submits more than one order, and one run
  of \<open>process_symbol\<close> submits at most one order and appends at most one row: nothing is
  retried.
\<close>

theorem order_execution_appends_once:
  "(order_placed (snd (buy_order cl product_id)) \<longrightarrow>
      (\<exists>r. trade_log (execute_buy cl now product_id st) = trade_log st @ [r] \<and>
           tr_side r = ''BUY'' \<and> tr_symbol r = ''binance_'' @ product_id)) \<and>
   (\<not> order_placed (snd (buy_order cl product_id)) \<longrightarrow>
      trade_log (execute_buy cl now product_id st) = trade_log st \<and>
      open_positions (execute_buy cl now product_id st) = open_positions st) \<and>
   (order_placed (snd (sell_order cl product_id)) \<longrightarrow>
      (\<exists>r. trade_log (snd (execute_sell cl now product_id (Some b) st)) = trade_log st @ [r] \<and>
           tr_side r = ''SELL'' \<and> tr_symbol r = ''binance_'' @ product_id)) \<and>
   (\<not> order_placed (snd (sell_order cl product_id)) \<longrightarrow>
      trade_log (snd (execute_sell cl now product_id last_buy st)) = trade_log st \<and>
      open_positions (snd (execute_sell cl now product_id last_buy st)) = open_positions st) \<and>
   (cl_current_price cl product_id = None \<longrightarrow>
      buy_order cl product_id = ([], None) \<and> sell_order cl product_id = ([], None)) \<and>
   (round_quantity_to_step cl symbol quantity = Some q \<and> q \<le> 0 \<longrightarrow>
      place_limit_order cl symbol side quantity price = ([], None)) \<and>
   ((\<forall>rq. cl_create_order cl rq = None) \<longrightarrow>
      \<not> order_placed (snd (buy_order cl product_id)) \<and>
      \<not> order_placed (snd (sell_order cl product_id))) \<and>
   length (orders_sent (execute_buy cl now product_id st)) \<le> length (orders_sent st) + 1 \<and>
   length (orders_sent (snd (execute_sell cl now product_id last_buy st)))
     \<le> length (orders_sent st) + 1 \<and>
   length (orders_sent (snd (process_symbol cl now product_id portfolio_safe p st)))
     \<le> length (orders_sent st) + 1 \<and>
   (trade_log (snd (process_symbol cl now product_id portfolio_safe p st)) = trade_log st \<or>
    (\<exists>r. trade_log (snd (process_symbol cl now product_id portfolio_safe p st)) = trade_log st @ [r]))"
proof -
  have buy_ok: "order_placed (snd (buy_order cl product_id)) \<longrightarrow>
      (\<exists>r. trade_log (execute_buy cl now product_id st) = trade_log st @ [r] \<and>
           tr_side r = ''BUY'' \<and> tr_symbol r = ''binance_'' @ product_id)"
    using execute_buy_appends by blast
  have buy_failed: "\<not> order_placed (snd (buy_order cl product_id)) \<longrightarrow>
      trade_log (execute_buy cl now product_id st) = trade_log st \<and>
      open_positions (execute_buy cl now product_id st) = open_positions st"
    by (simp add: execute_buy_not_placed)
  have sell_ok: "order_placed (snd (sell_order cl product_id)) \<longrightarrow>
      (\<exists>r. trade_log (snd (execute_sell cl now product_id (Some b) st)) = trade_log st @ [r] \<and>
           tr_side r = ''SELL'' \<and> tr_symbol r = ''binance_'' @ product_id)"
    using execute_sell_appends by blast
  have sell_failed: "\<not> order_placed (snd (sell_order cl product_id)) \<longrightarrow>
      trade_log (snd (execute_sell cl now product_id last_buy st)) = trade_log st \<and>
      open_positions (snd (execute_sell cl now product_id last_buy st)) = open_positions st"
    by (simp add: execute_sell_not_placed)
  have no_price: "cl_current_price cl product_id = None \<longrightarrow>
      buy_order cl product_id = ([], None) \<and> sell_order cl product_id = ([], None)"
    by (simp add: buy_order_no_price sell_order_nothing)
  have rounds: "round_quantity_to_step cl symbol quantity = Some q \<and> q \<le> 0 \<longrightarrow>
      place_limit_order cl symbol side quantity price = ([], None)"
    by (simp add: place_limit_order_rounds_to_zero)
  have rejected: "(\<forall>rq. cl_create_order cl rq = None) \<longrightarrow>
      \<not> order_placed (snd (buy_order cl product_id)) \<and>
      \<not> order_placed (snd (sell_order cl product_id))"
    using buy_order_rejected sell_order_rejected by blast
  have once_buy: "length (orders_sent (execute_buy cl now product_id st)) \<le> length (orders_sent st) + 1"
    using buy_order_sent [of cl product_id] by (simp add: execute_buy_orders_sent)
  have once_sell: "length (orders_sent (snd (execute_sell cl now product_id last_buy st)))
     \<le> length (orders_sent st) + 1"
    using sell_order_sent [of cl product_id] by (simp add: execute_sell_orders_sent)
  from buy_ok buy_failed sell_ok sell_failed no_price rounds rejected once_buy once_sell
    process_symbol_orders_sent [of cl now product_id portfolio_safe p st]
    process_symbol_log [of cl now product_id portfolio_safe p st]
  show ?thesis
    by - (intro conjI, assumption+)
qed

theorem order_execution_appends_once_witness:
  "order_placed (snd (buy_order healthy_client ''ETHUSDT'')) \<and>
   length (trade_log (execute_buy healthy_client 50 ''ETHUSDT'' (example_state []))) = 1 \<and>
   order_placed (snd (sell_order healthy_client ''ETHUSDT'')) \<and>
   length (trade_log (snd (execute_sell healthy_client 50 ''ETHUSDT'' (Some (example_buy 10))
                             (example_state [example_buy 10])))) = 2 \<and>
   (\<forall>rq. cl_create_order rejecting_client rq = None) \<and>
   trade_log (execute_buy rejecting_client 50 ''ETHUSDT'' (example_state [])) = [] \<and>
   trade_log (snd (execute_sell rejecting_client 50 ''ETHUSDT'' (Some (example_buy 10))
                     (example_state [example_buy 10]))) = [example_buy 10] \<and>
   cl_current_price priceless_client ''ETHUSDT'' = None \<and>
   buy_order priceless_client ''ETHUSDT'' = ([], None) \<and>
   round_quantity_to_step coarse_step_client ''ETHUSDT'' (15 / 100) = Some 0 \<and>
   place_limit_order coarse_step_client ''ETHUSDT'' ''buy'' (15 / 100) (9999 / 100) = ([], None)"
proof -
  let ?st0 = "example_state []"
  let ?st1 = "example_state [example_buy 10]"
  have placed: "order_placed (snd (buy_order healthy_client ''ETHUSDT''))"
    "order_placed (snd (sell_order healthy_client ''ETHUSDT''))"
    and no_price: "cl_current_price priceless_client ''ETHUSDT'' = None"
    and rounds: "round_quantity_to_step coarse_step_client ''ETHUSDT'' (15 / 100) = Some 0"
    by code_simp+
  have rejects: "\<forall>rq. cl_create_order rejecting_client rq = None"
    by (simp add: rejecting_client_def example_client_def)
  have logs: "trade_log ?st0 = []" "trade_log ?st1 = [example_buy 10]"
    by (simp_all add: example_state_def)
  note healthy = order_execution_appends_once
    [where cl = healthy_client and product_id = "''ETHUSDT''" and now = 50 and st = ?st0]
  from healthy placed(1) obtain r where
    "trade_log (execute_buy healthy_client 50 ''ETHUSDT'' ?st0) = trade_log ?st0 @ [r]"
    by blast
  then have bought: "length (trade_log (execute_buy healthy_client 50 ''ETHUSDT'' ?st0)) = 1"
    by (simp add: logs)
  from order_execution_appends_once
         [where cl = healthy_client and product_id = "''ETHUSDT''" and now = 50 and st = ?st1
            and b = "example_buy 10"] placed(2)
  obtain r' where
    "trade_log (snd (execute_sell healthy_client 50 ''ETHUSDT'' (Some (example_buy 10)) ?st1)) =
       trade_log ?st1 @ [r']"
    by blast
  then have sold: "length (trade_log (snd (execute_sell healthy_client 50 ''ETHUSDT''
                      (Some (example_buy 10)) ?st1))) = 2"
    by (simp add: logs)
  from order_execution_appends_once
         [where cl = rejecting_client and product_id = "''ETHUSDT''" and now = 50 and st = ?st0]
       rejects
  have not_bought: "trade_log (execute_buy rejecting_client 50 ''ETHUSDT'' ?st0) = trade_log ?st0"
    by blast
  from order_execution_appends_once
         [where cl = rejecting_client and product_id = "''ETHUSDT''" and now = 50 and st = ?st1
            and last_buy = "Some (example_buy 10)"] rejects
  have not_sold: "trade_log (snd (execute_sell rejecting_client 50 ''ETHUSDT''
                     (Some (example_buy 10)) ?st1)) = trade_log ?st1"
    by blast
  from order_execution_appends_once [where cl = priceless_client and product_id = "''ETHUSDT''"]
       no_price
  have unpriced: "buy_order priceless_client ''ETHUSDT'' = ([], None)"
    by blast
  from order_execution_appends_once
         [where cl = coarse_step_client and symbol = "''ETHUSDT''" and quantity = "15 / 100"
            and q = 0 and side = "''buy''" and price = "9999 / 100"] rounds
  have rounded: "place_limit_order coarse_step_client ''ETHUSDT'' ''buy'' (15 / 100) (9999 / 100)
                   = ([], None)"
    by simp
  from placed bought sold rejects not_bought not_sold no_price unpriced rounds rounded
  show ?thesis
    by (simp add: logs)
qed


section \<open>Gates and execution paths\<close>

lemma new_stages_execute_buy:
  "stages s = stages st @ xs \<Longrightarrow> new_stages st (execute_buy cl now product_id s) = xs"
  by (simp add: new_stages_def execute_buy_stages)

lemma new_stages_execute_sell:
  "stages s = stages st @ xs \<Longrightarrow> new_stages st (snd (execute_sell cl now product_id lb s)) = xs"
  by (simp add: new_stages_def execute_sell_stages)

text \<open>The stages one run of \<open>process_symbol\<close> goes through.\<close>

lemma process_symbol_new_stages:
  "new_stages st (snd (process_symbol cl now product_id portfolio_safe p st)) =
     canary_stage product_id @
     (if canary_halts cl product_id then []
      else
        [Fetch_data, Calculate_indicators] @
        (case fetched_frame cl product_id p of
           None \<Rightarrow> []
         | Some df \<Rightarrow>
             [Determine_position, Crash_check] @
             (if check_market_crash (Some df) \<noteq> Inr False then []
              else
                [Generate_signal] @
                (case generate_signal (Some df) p of
                   Inl e \<Rightarrow> []
                 | Inr (signal, reason) \<Rightarrow>
                     if signal = BUY \<and>
                        get_last_buy_for_symbol (trade_log st) (''binance_'' @ product_id) = None \<and>
                        portfolio_safe
                       then [Execute_buy]
                     else if signal = SELL \<and>
                        get_last_buy_for_symbol (trade_log st) (''binance_'' @ product_id) \<noteq> None
                       then [Execute_sell]
                     else []))))"
proof (cases "canary_halts cl product_id")
  case True
  then show ?thesis
    by (simp add: process_symbol_halted)
next
  case no_halt: False
  show ?thesis
  proof (cases "fetched_frame cl product_id p")
    case None
    with no_halt show ?thesis
      by (simp add: process_symbol_no_data)
  next
    case (Some df)
    show ?thesis
    proof (cases "check_market_crash (Some df) = Inr False")
      case False
      with no_halt Some show ?thesis
        by (simp add: process_symbol_crash)
    next
      case True
      with no_halt Some show ?thesis
        by (auto simp: process_symbol_signal Let_def new_stages_execute_buy new_stages_execute_sell
            split: sum.splits prod.splits)
    qed
  qed
qed

lemma canary_stage_no_execution:
  "Execute_buy \<notin> set (canary_stage product_id)" "Execute_sell \<notin> set (canary_stage product_id)"
  by (simp_all add: canary_stage_def)

lemma check_market_crash_None: "check_market_crash None = Inr False"
  by (simp add: check_market_crash_def)

lemma generate_signal_None: "generate_signal None p = Inr (HOLD, Not_enough_data)"
  by (simp add: generate_signal_def)

text \<open>When each execution path is entered.\<close>

lemma execute_buy_entered_iff:
  "Execute_buy \<in> set (new_stages st (snd (process_symbol cl now product_id portfolio_safe p st))) \<longleftrightarrow>
     \<not> canary_halts cl product_id \<and>
     check_market_crash (fetched_frame cl product_id p) = Inr False \<and>
     (\<exists>reason. generate_signal (fetched_frame cl product_id p) p = Inr (BUY, reason)) \<and>
     get_last_buy_for_symbol (trade_log st) (''binance_'' @ product_id) = None \<and> portfolio_safe"
  by (cases "fetched_frame cl product_id p")
     ((auto simp: process_symbol_new_stages canary_stage_no_execution generate_signal_None
        split: sum.splits prod.splits if_splits); metis)+

lemma execute_sell_entered_iff:
  "Execute_sell \<in> set (new_stages st (snd (process_symbol cl now product_id portfolio_safe p st))) \<longleftrightarrow>
     \<not> canary_halts cl product_id \<and>
     check_market_crash (fetched_frame cl product_id p) = Inr False \<and>
     (\<exists>reason. generate_signal (fetched_frame cl product_id p) p = Inr (SELL, reason)) \<and>
     get_last_buy_for_symbol (trade_log st) (''binance_'' @ product_id) \<noteq> None"
  by (cases "fetched_frame cl product_id p")
     ((auto simp: process_symbol_new_stages canary_stage_no_execution generate_signal_None
        split: sum.splits prod.splits if_splits); metis)+

lemma execute_buy_appended_row:
  assumes "trade_log (execute_buy cl now product_id s) = trade_log st @ [r]"
    and "trade_log s = trade_log st"
  shows "tr_side r = ''BUY'' \<and> tr_symbol r = ''binance_'' @ product_id"
proof (cases "order_placed (snd (buy_order cl product_id))")
  case True
  from execute_buy_appends [OF True, of now s] assms show ?thesis
    by auto
next
  case False
  with assms show ?thesis
    by (simp add: execute_buy_not_placed)
qed

lemma execute_sell_appended_row:
  assumes "trade_log (snd (execute_sell cl now product_id lb s)) = trade_log st @ [r]"
    and "trade_log s = trade_log st"
  shows "tr_side r = ''SELL'' \<and> tr_symbol r = ''binance_'' @ product_id"
proof (cases "order_placed (snd (sell_order cl product_id))")
  case True
  show ?thesis
  proof (cases lb)
    case None
    with True assms show ?thesis
      by (cases "sell_order cl product_id")
         (auto simp: execute_sell_eq Let_def split: option.splits)
  next
    case (Some b)
    from execute_sell_appends [OF True, of now b s] assms Some show ?thesis
      by auto
  qed
next
  case False
  with assms show ?thesis
    by (simp add: execute_sell_not_placed)
qed

text \<open>
  A row appended by a run is a BUY of the symbol entered through the buy path, or a SELL
  of the symbol entered through the sell path.
\<close>

lemma process_symbol_appended_row:
  assumes "trade_log (snd (process_symbol cl now product_id portfolio_safe p st)) = trade_log st @ [r]"
  shows "tr_symbol r = ''binance_'' @ product_id \<and>
         (tr_side r = ''BUY'' \<and>
          Execute_buy \<in> set (new_stages st (snd (process_symbol cl now product_id portfolio_safe p st))) \<or>
          tr_side r = ''SELL'' \<and>
          Execute_sell \<in> set (new_stages st (snd (process_symbol cl now product_id portfolio_safe p st))))"
proof (cases "canary_halts cl product_id")
  case True
  with assms show ?thesis
    by (simp add: process_symbol_halted)
next
  case no_halt: False
  show ?thesis
  proof (cases "fetched_frame cl product_id p")
    case None
    with no_halt assms show ?thesis
      by (simp add: process_symbol_no_data)
  next
    case (Some df)
    show ?thesis
    proof (cases "check_market_crash (Some df) = Inr False")
      case False
      with no_halt Some assms show ?thesis
        by (simp add: process_symbol_crash)
    next
      case True
      note run = process_symbol_signal [OF no_halt Some True, of now portfolio_safe st]
      show ?thesis
      proof (cases "generate_signal (Some df) p")
        case (Inl e)
        with run assms show ?thesis
          by (simp add: Let_def)
      next
        case (Inr sr)
        obtain signal reason where sr: "sr = (signal, reason)"
          by (cases sr)
        let ?lb = "get_last_buy_for_symbol (trade_log st) (''binance_'' @ product_id)"
        consider (buy) "signal = BUY" "?lb = None" "portfolio_safe"
          | (sell) "\<not> (signal = BUY \<and> ?lb = None \<and> portfolio_safe)" "signal = SELL" "?lb \<noteq> None"
          | (none) "\<not> (signal = BUY \<and> ?lb = None \<and> portfolio_safe)" "\<not> (signal = SELL \<and> ?lb \<noteq> None)"
          by argo
        then show ?thesis
        proof cases
          case buy
          with run Inr sr assms
          have "tr_side r = ''BUY'' \<and> tr_symbol r = ''binance_'' @ product_id"
            by (auto simp: Let_def dest!: execute_buy_appended_row)
          moreover from buy no_halt Some True Inr sr
          have "Execute_buy \<in> set (new_stages st (snd (process_symbol cl now product_id portfolio_safe p st)))"
            by (simp add: execute_buy_entered_iff)
          ultimately show ?thesis
            by simp
        next
          case sell
          with run Inr sr assms
          have "tr_side r = ''SELL'' \<and> tr_symbol r = ''binance_'' @ product_id"
            by (auto simp: Let_def dest!: execute_sell_appended_row)
          moreover from sell no_halt Some True Inr sr
          have "Execute_sell \<in> set (new_stages st (snd (process_symbol cl now product_id portfolio_safe p st)))"
            by (simp add: execute_sell_entered_iff)
          ultimately show ?thesis
            by simp
        next
          case none
          with run Inr sr assms show ?thesis
            by (auto simp: Let_def)
        qed
      qed
    qed
  qed
qed

text \<open>
  Claim C6. The buy path of \<open>process_symbol\<close> is entered only when the signal is BUY,
  the position resolved from the ledger is closed and the portfolio check passed; the sell
  path only when the signal is SELL and the resolved position is open. The two paths
  exclude each other, and the ledger follows: a BUY row is appended only to a ledger the
  resolver reads as closed for that symbol, a SELL row only to one it reads as open.
\<close>

theorem process_symbol_execution_paths:
  "(Execute_buy \<in> set (new_stages st (snd (process_symbol cl now product_id portfolio_safe p st))) \<longrightarrow>
      (\<exists>reason. generate_signal (fetched_frame cl product_id p) p = Inr (BUY, reason)) \<and>
      get_last_buy_for_symbol (trade_log st) (''binance_'' @ product_id) = None \<and>
      portfolio_safe) \<and>
   (Execute_sell \<in> set (new_stages st (snd (process_symbol cl now product_id portfolio_safe p st))) \<longrightarrow>
      (\<exists>reason. generate_signal (fetched_frame cl product_id p) p = Inr (SELL, reason)) \<and>
      (\<exists>b. get_last_buy_for_symbol (trade_log st) (''binance_'' @ product_id) = Some b)) \<and>
   \<not> (Execute_buy \<in> set (new_stages st (snd (process_symbol cl now product_id portfolio_safe p st))) \<and>
      Execute_sell \<in> set (new_stages st (snd (process_symbol cl now product_id portfolio_safe p st)))) \<and>
   (trade_log (snd (process_symbol cl now product_id portfolio_safe p st)) = trade_log st @ [r] \<and>
    tr_side r = ''BUY'' \<longrightarrow>
      get_last_buy_for_symbol (trade_log st) (tr_symbol r) = None) \<and>
   (trade_log (snd (process_symbol cl now product_id portfolio_safe p st)) = trade_log st @ [r] \<and>
    tr_side r = ''SELL'' \<longrightarrow>
      (\<exists>b. get_last_buy_for_symbol (trade_log st) (tr_symbol r) = Some b))"
proof -
  let ?run = "snd (process_symbol cl now product_id portfolio_safe p st)"
  have buy: "Execute_buy \<in> set (new_stages st ?run) \<longrightarrow>
      (\<exists>reason. generate_signal (fetched_frame cl product_id p) p = Inr (BUY, reason)) \<and>
      get_last_buy_for_symbol (trade_log st) (''binance_'' @ product_id) = None \<and>
      portfolio_safe"
    by (simp add: execute_buy_entered_iff)
  have sell: "Execute_sell \<in> set (new_stages st ?run) \<longrightarrow>
      (\<exists>reason. generate_signal (fetched_frame cl product_id p) p = Inr (SELL, reason)) \<and>
      (\<exists>b. get_last_buy_for_symbol (trade_log st) (''binance_'' @ product_id) = Some b)"
    by (auto simp: execute_sell_entered_iff)
  have excl: "\<not> (Execute_buy \<in> set (new_stages st ?run) \<and> Execute_sell \<in> set (new_stages st ?run))"
    by (auto simp: execute_buy_entered_iff execute_sell_entered_iff)
  have buy_row: "trade_log ?run = trade_log st @ [r] \<and> tr_side r = ''BUY'' \<longrightarrow>
      get_last_buy_for_symbol (trade_log st) (tr_symbol r) = None"
  proof
    assume a: "trade_log ?run = trade_log st @ [r] \<and> tr_side r = ''BUY''"
    with process_symbol_appended_row [of cl now product_id portfolio_safe p st r]
    have "tr_symbol r = ''binance_'' @ product_id" and "Execute_buy \<in> set (new_stages st ?run)"
      by auto
    with buy show "get_last_buy_for_symbol (trade_log st) (tr_symbol r) = None"
      by simp
  qed
  have sell_row: "trade_log ?run = trade_log st @ [r] \<and> tr_side r = ''SELL'' \<longrightarrow>
      (\<exists>b. get_last_buy_for_symbol (trade_log st) (tr_symbol r) = Some b)"
  proof
    assume a: "trade_log ?run = trade_log st @ [r] \<and> tr_side r = ''SELL''"
    with process_symbol_appended_row [of cl now product_id portfolio_safe p st r]
    have "tr_symbol r = ''binance_'' @ product_id" and "Execute_sell \<in> set (new_stages st ?run)"
      by auto
    with sell show "\<exists>b. get_last_buy_for_symbol (trade_log st) (tr_symbol r) = Some b"
      by simp
  qed
  from buy sell excl buy_row sell_row show ?thesis
    by - (intro conjI, assumption+)
qed

theorem process_symbol_execution_paths_witness:
  "Execute_buy \<in> set (new_stages (example_state [])
      (snd (process_symbol dip_client 50 ''ETHUSDT'' True STRATEGY_AGGRESSIVE (example_state [])))) \<and>
   (\<exists>reason. generate_signal (fetched_frame dip_client ''ETHUSDT'' STRATEGY_AGGRESSIVE)
                STRATEGY_AGGRESSIVE = Inr (BUY, reason)) \<and>
   get_last_buy_for_symbol (trade_log (example_state [])) ''binance_ETHUSDT'' = None \<and>
   Execute_sell \<in> set (new_stages (example_state [example_buy 10])
      (snd (process_symbol healthy_client 50 ''ETHUSDT'' False STRATEGY_AGGRESSIVE
              (example_state [example_buy 10])))) \<and>
   (\<exists>reason. generate_signal (fetched_frame healthy_client ''ETHUSDT'' STRATEGY_AGGRESSIVE)
                STRATEGY_AGGRESSIVE = Inr (SELL, reason)) \<and>
   (\<exists>b. get_last_buy_for_symbol (trade_log (example_state [example_buy 10])) ''binance_ETHUSDT''
          = Some b)"
proof -
  have entered_buy: "Execute_buy \<in> set (new_stages (example_state [])
      (snd (process_symbol dip_client 50 ''ETHUSDT'' True STRATEGY_AGGRESSIVE (example_state []))))"
    by code_simp
  have entered_sell: "Execute_sell \<in> set (new_stages (example_state [example_buy 10])
      (snd (process_symbol healthy_client 50 ''ETHUSDT'' False STRATEGY_AGGRESSIVE
              (example_state [example_buy 10]))))"
    by code_simp
  from process_symbol_execution_paths
         [where cl = dip_client and now = 50 and product_id = "''ETHUSDT''" and portfolio_safe = True
            and p = STRATEGY_AGGRESSIVE and st = "example_state []"] entered_buy
  have buy: "(\<exists>reason. generate_signal (fetched_frame dip_client ''ETHUSDT'' STRATEGY_AGGRESSIVE)
                STRATEGY_AGGRESSIVE = Inr (BUY, reason)) \<and>
      get_last_buy_for_symbol (trade_log (example_state [])) (''binance_'' @ ''ETHUSDT'') = None"
    by blast
  from process_symbol_execution_paths
         [where cl = healthy_client and now = 50 and product_id = "''ETHUSDT''"
            and portfolio_safe = False and p = STRATEGY_AGGRESSIVE
            and st = "example_state [example_buy 10]"] entered_sell
  have sell: "(\<exists>reason. generate_signal (fetched_frame healthy_client ''ETHUSDT'' STRATEGY_AGGRESSIVE)
                STRATEGY_AGGRESSIVE = Inr (SELL, reason)) \<and>
      (\<exists>b. get_last_buy_for_symbol (trade_log (example_state [example_buy 10]))
              (''binance_'' @ ''ETHUSDT'') = Some b)"
    by blast
  from entered_buy entered_sell buy sell show ?thesis
    by simp
qed

text \<open>
  Claim C7 as stated fails when the last close fell by 15 percent: by the time the crash
  check runs, the indicators have been computed and the position has been resolved from
  the ledger (the in-memory flag of the symbol, unset before, now says open).
\<close>

theorem crash_after_position_resolution_counterexample:
  "check_market_crash (fetched_frame crash_client ''ETHUSDT'' STRATEGY_AGGRESSIVE) \<noteq> Inr False \<and>
   new_stages (example_state [example_buy 10])
     (snd (process_symbol crash_client 50 ''ETHUSDT'' True STRATEGY_AGGRESSIVE
             (example_state [example_buy 10]))) =
     [Fetch_data, Calculate_indicators, Determine_position, Crash_check] \<and>
   open_positions (example_state [example_buy 10]) ''ETHUSDT'' = None \<and>
   open_positions
     (snd (process_symbol crash_client 50 ''ETHUSDT'' True STRATEGY_AGGRESSIVE
             (example_state [example_buy 10]))) ''ETHUSDT'' = Some True"
  by code_simp

lemma process_symbol_crash_effects:
  assumes "\<not> canary_halts cl product_id"
    and "check_market_crash (fetched_frame cl product_id p) \<noteq> Inr False"
  shows "snd (process_symbol cl now product_id portfolio_safe p st) =
           st\<lparr>open_positions := (open_positions st)
                  (product_id \<mapsto> get_last_buy_for_symbol (trade_log st) (''binance_'' @ product_id) \<noteq> None),
              stages := stages st @ canary_stage product_id @
                [Fetch_data, Calculate_indicators, Determine_position, Crash_check]\<rparr>"
proof (cases "fetched_frame cl product_id p")
  case None
  with assms(2) show ?thesis
    by (simp add: check_market_crash_None)
next
  case (Some df)
  with assms show ?thesis
    by (simp add: process_symbol_crash)
qed

lemma process_symbol_stage_order:
  "prefix (new_stages st (snd (process_symbol cl now product_id portfolio_safe p st)))
     (canary_stage product_id @
      [Fetch_data, Calculate_indicators, Determine_position, Crash_check, Generate_signal,
       Execute_buy]) \<or>
   prefix (new_stages st (snd (process_symbol cl now product_id portfolio_safe p st)))
     (canary_stage product_id @
      [Fetch_data, Calculate_indicators, Determine_position, Crash_check, Generate_signal,
       Execute_sell])"
  by (simp add: process_symbol_new_stages split: option.splits sum.splits prod.splits)

text \<open>
  Claim C7, amended. When the crash check fires for a symbol the canary check let
  through, the run ends at the crash check: no signal is generated, no order is sent and
  no ledger row is written; by then the data has been fetched, the indicators computed
  and the position resolved (the in-memory flag is set from the ledger). In every run the
  stages come in one order: the canary check (for a symbol containing BTC) first, then
  fetching, indicators, position resolution, the crash check, the signal, and at most one
  of the two execution paths.
\<close>

theorem crash_ends_the_run:
  "(\<not> canary_halts cl product_id \<and>
    check_market_crash (fetched_frame cl product_id p) \<noteq> Inr False \<longrightarrow>
      new_stages st (snd (process_symbol cl now product_id portfolio_safe p st)) =
        canary_stage product_id @
        [Fetch_data, Calculate_indicators, Determine_position, Crash_check] \<and>
      trade_log (snd (process_symbol cl now product_id portfolio_safe p st)) = trade_log st \<and>
      orders_sent (snd (process_symbol cl now product_id portfolio_safe p st)) = orders_sent st \<and>
      open_positions (snd (process_symbol cl now product_id portfolio_safe p st)) =
        (open_positions st)
          (product_id \<mapsto> get_last_buy_for_symbol (trade_log st) (''binance_'' @ product_id) \<noteq> None)) \<and>
   (prefix (new_stages st (snd (process_symbol cl now product_id portfolio_safe p st)))
      (canary_stage product_id @
       [Fetch_data, Calculate_indicators, Determine_position, Crash_check, Generate_signal,
        Execute_buy]) \<or>
    prefix (new_stages st (snd (process_symbol cl now product_id portfolio_safe p st)))
      (canary_stage product_id @
       [Fetch_data, Calculate_indicators, Determine_position, Crash_check, Generate_signal,
        Execute_sell]))"
proof -
  have crash: "\<not> canary_halts cl product_id \<and>
    check_market_crash (fetched_frame cl product_id p) \<noteq> Inr False \<longrightarrow>
      new_stages st (snd (process_symbol cl now product_id portfolio_safe p st)) =
        canary_stage product_id @
        [Fetch_data, Calculate_indicators, Determine_position, Crash_check] \<and>
      trade_log (snd (process_symbol cl now product_id portfolio_safe p st)) = trade_log st \<and>
      orders_sent (snd (process_symbol cl now product_id portfolio_safe p st)) = orders_sent st \<and>
      open_positions (snd (process_symbol cl now product_id portfolio_safe p st)) =
        (open_positions st)
          (product_id \<mapsto> get_last_buy_for_symbol (trade_log st) (''binance_'' @ product_id) \<noteq> None)"
    by (simp add: process_symbol_crash_effects)
  from crash process_symbol_stage_order [of st cl now product_id portfolio_safe p]
  show ?thesis
    by - (intro conjI, assumption+)
qed

theorem crash_ends_the_run_witness:
  "\<not> canary_halts crash_client ''ETHUSDT'' \<and>
   check_market_crash (fetched_frame crash_client ''ETHUSDT'' STRATEGY_AGGRESSIVE) \<noteq> Inr False \<and>
   new_stages (example_state [example_buy 10])
     (snd (process_symbol crash_client 50 ''ETHUSDT'' True STRATEGY_AGGRESSIVE
             (example_state [example_buy 10]))) =
     [Fetch_data, Calculate_indicators, Determine_position, Crash_check] \<and>
   trade_log (snd (process_symbol crash_client 50 ''ETHUSDT'' True STRATEGY_AGGRESSIVE
                     (example_state [example_buy 10]))) = [example_buy 10] \<and>
   orders_sent (snd (process_symbol crash_client 50 ''ETHUSDT'' True STRATEGY_AGGRESSIVE
                       (example_state [example_buy 10]))) = []"
proof -
  have hyps: "\<not> canary_halts crash_client ''ETHUSDT''"
    "check_market_crash (fetched_frame crash_client ''ETHUSDT'' STRATEGY_AGGRESSIVE) \<noteq> Inr False"
    by code_simp+
  have no_canary: "canary_stage ''ETHUSDT'' = []"
    by (simp add: canary_stage_def)
  from crash_ends_the_run
         [where cl = crash_client and product_id = "''ETHUSDT''" and p = STRATEGY_AGGRESSIVE
            and st = "example_state [example_buy 10]" and now = 50 and portfolio_safe = True] hyps
  have "new_stages (example_state [example_buy 10])
          (snd (process_symbol crash_client 50 ''ETHUSDT'' True STRATEGY_AGGRESSIVE
             (example_state [example_buy 10]))) =
        canary_stage ''ETHUSDT'' @
        [Fetch_data, Calculate_indicators, Determine_position, Crash_check] \<and>
      trade_log (snd (process_symbol crash_client 50 ''ETHUSDT'' True STRATEGY_AGGRESSIVE
                     (example_state [example_buy 10]))) = trade_log (example_state [example_buy 10]) \<and>
      orders_sent (snd (process_symbol crash_client 50 ''ETHUSDT'' True STRATEGY_AGGRESSIVE
                       (example_state [example_buy 10]))) = orders_sent (example_state [example_buy 10])"
    by blast
  with hyps show ?thesis
    by (simp add: no_canary example_state_def)
qed

text \<open>
  Claim C5 as stated fails for BTCUSDT when the BTC holding is worth less than the canary
  floor: on rising prices the signal on the fetched data is SELL, the crash check does
  not fire, the ledger holds an open BUY and a sell order would be placed, yet the run
  ends at the canary check and nothing is sold.
\<close>

theorem sell_blocked_by_canary_counterexample:
  "generate_signal (fetched_frame canary_client ''BTCUSDT'' STRATEGY_AGGRESSIVE) STRATEGY_AGGRESSIVE
     = Inr (SELL, Aggressive_Sell_RSI_Overbought (Fin 100)) \<and>
   check_market_crash (fetched_frame canary_client ''BTCUSDT'' STRATEGY_AGGRESSIVE) = Inr False \<and>
   get_last_buy_for_symbol (trade_log (example_state [btc_buy])) ''binance_BTCUSDT'' = Some btc_buy \<and>
   order_placed (snd (sell_order canary_client ''BTCUSDT'')) \<and>
   \<not> check_binance_btc_balance canary_client \<and>
   fst (process_symbol canary_client 50 ''BTCUSDT'' True STRATEGY_AGGRESSIVE (example_state [btc_buy]))
     = Returned \<and>
   stages (snd (process_symbol canary_client 50 ''BTCUSDT'' True STRATEGY_AGGRESSIVE
                  (example_state [btc_buy]))) = [Canary_check] \<and>
   orders_sent (snd (process_symbol canary_client 50 ''BTCUSDT'' True STRATEGY_AGGRESSIVE
                       (example_state [btc_buy]))) = [] \<and>
   trade_log (snd (process_symbol canary_client 50 ''BTCUSDT'' True STRATEGY_AGGRESSIVE
                     (example_state [btc_buy]))) = [btc_buy]"
  by code_simp

text \<open>
  Claim C5, amended. A SELL is never blocked by the portfolio check: whenever the canary
  check lets the symbol through, the crash check does not fire, the signal is SELL and
  the resolved position is open, \<open>process_symbol\<close> enters the sell path and its result
  is that of \<open>execute_sell\<close> with the resolved BUY row, whatever the portfolio check said.
\<close>

theorem sell_not_blocked_by_portfolio_check:
  "\<not> canary_halts cl product_id \<and>
   check_market_crash (fetched_frame cl product_id p) = Inr False \<and>
   generate_signal (fetched_frame cl product_id p) p = Inr (SELL, reason) \<and>
   get_last_buy_for_symbol (trade_log st) (''binance_'' @ product_id) = Some b \<longrightarrow>
     Execute_sell \<in> set (new_stages st (snd (process_symbol cl now product_id portfolio_safe p st))) \<and>
     process_symbol cl now product_id portfolio_safe p st =
       execute_sell cl now product_id (Some b)
         (st\<lparr>open_positions := (open_positions st)(product_id \<mapsto> True),
             stages := stages st @ canary_stage product_id @
               [Fetch_data, Calculate_indicators, Determine_position, Crash_check,
                Generate_signal, Execute_sell]\<rparr>)"
proof
  assume a: "\<not> canary_halts cl product_id \<and>
   check_market_crash (fetched_frame cl product_id p) = Inr False \<and>
   generate_signal (fetched_frame cl product_id p) p = Inr (SELL, reason) \<and>
   get_last_buy_for_symbol (trade_log st) (''binance_'' @ product_id) = Some b"
  then obtain df where df: "fetched_frame cl product_id p = Some df"
    by (cases "fetched_frame cl product_id p") (simp_all add: generate_signal_None)
  from a have entered:
    "Execute_sell \<in> set (new_stages st (snd (process_symbol cl now product_id portfolio_safe p st)))"
    by (auto simp: execute_sell_entered_iff)
  from a df have no_halt: "\<not> canary_halts cl product_id"
    and no_crash: "check_market_crash (Some df) = Inr False"
    and sell: "generate_signal (Some df) p = Inr (SELL, reason)"
    and open_pos: "get_last_buy_for_symbol (trade_log st) (''binance_'' @ product_id) = Some b"
    by simp_all
  from sell open_pos
  have "process_symbol cl now product_id portfolio_safe p st =
       execute_sell cl now product_id (Some b)
         (st\<lparr>open_positions := (open_positions st)(product_id \<mapsto> True),
             stages := stages st @ canary_stage product_id @
               [Fetch_data, Calculate_indicators, Determine_position, Crash_check,
                Generate_signal, Execute_sell]\<rparr>)"
    by (simp add: process_symbol_signal [OF no_halt df no_crash] Let_def)
  with entered show
    "Execute_sell \<in> set (new_stages st (snd (process_symbol cl now product_id portfolio_safe p st))) \<and>
     process_symbol cl now product_id portfolio_safe p st =
       execute_sell cl now product_id (Some b)
         (st\<lparr>open_positions := (open_positions st)(product_id \<mapsto> True),
             stages := stages st @ canary_stage product_id @
               [Fetch_data, Calculate_indicators, Determine_position, Crash_check,
                Generate_signal, Execute_sell]\<rparr>)"
    by simp
qed

theorem sell_not_blocked_by_portfolio_check_witness:
  "\<not> canary_halts healthy_client ''ETHUSDT'' \<and>
   check_market_crash (fetched_frame healthy_client ''ETHUSDT'' STRATEGY_AGGRESSIVE) = Inr False \<and>
   generate_signal (fetched_frame healthy_client ''ETHUSDT'' STRATEGY_AGGRESSIVE) STRATEGY_AGGRESSIVE
     = Inr (SELL, Aggressive_Sell_RSI_Overbought (Fin 100)) \<and>
   get_last_buy_for_symbol (trade_log (example_state [example_buy 10])) (''binance_'' @ ''ETHUSDT'')
     = Some (example_buy 10) \<and>
   Execute_sell \<in> set (new_stages (example_state [example_buy 10])
     (snd (process_symbol healthy_client 50 ''ETHUSDT'' False STRATEGY_AGGRESSIVE
             (example_state [example_buy 10]))))"
proof -
  have hyps: "\<not> canary_halts healthy_client ''ETHUSDT''"
    "check_market_crash (fetched_frame healthy_client ''ETHUSDT'' STRATEGY_AGGRESSIVE) = Inr False"
    "generate_signal (fetched_frame healthy_client ''ETHUSDT'' STRATEGY_AGGRESSIVE) STRATEGY_AGGRESSIVE
       = Inr (SELL, Aggressive_Sell_RSI_Overbought (Fin 100))"
    "get_last_buy_for_symbol (trade_log (example_state [example_buy 10])) (''binance_'' @ ''ETHUSDT'')
       = Some (example_buy 10)"
    by code_simp+
  from sell_not_blocked_by_portfolio_check
         [where cl = healthy_client and product_id = "''ETHUSDT''" and p = STRATEGY_AGGRESSIVE
            and reason = "Aggressive_Sell_RSI_Overbought (Fin 100)"
            and st = "example_state [example_buy 10]" and b = "example_buy 10" and now = 50
            and portfolio_safe = False] hyps
  have "Execute_sell \<in> set (new_stages (example_state [example_buy 10])
     (snd (process_symbol healthy_client 50 ''ETHUSDT'' False STRATEGY_AGGRESSIVE
             (example_state [example_buy 10]))))"
    by blast
  with hyps show ?thesis
    by blast
qed


section \<open>At most one open position\<close>

lemma open_buys_snoc: "open_buys symbol (ledger @ [r]) = count_row symbol (open_buys symbol ledger) r"
  by (simp add: open_buys_def)

lemma most_recent_snoc:
  "most_recent sd symbol (ledger @ [r]) =
     (if tr_symbol r = symbol \<and> tr_side r = sd then Some r else most_recent sd symbol ledger)"
  by (simp add: most_recent_def)

lemma most_recent_in_set: "most_recent sd symbol ledger = Some r \<Longrightarrow> r \<in> set ledger"
  by (metis most_recent_def find_Some_iff nth_mem set_rev)

text \<open>
  In a ledger whose timestamps never decrease in file order, a position the resolver
  reads as closed has no open BUY.
\<close>

lemma closed_means_no_open_buy:
  assumes "sorted (map tr_timestamp ledger)"
    and "get_last_buy_for_symbol ledger symbol = None"
  shows "open_buys symbol ledger = 0"
  using assms
proof (induction ledger rule: rev_induct)
  case Nil
  show ?case by (simp add: open_buys_def)
next
  case (snoc x xs)
  from snoc.prems(1) have sorted_xs: "sorted (map tr_timestamp xs)"
    and latest: "\<forall>r \<in> set xs. tr_timestamp r \<le> tr_timestamp x"
    by (auto simp: sorted_append)
  consider (sell) "tr_symbol x = symbol" "tr_side x = ''SELL''"
    | (buy) "tr_symbol x = symbol" "tr_side x = ''BUY''"
    | (other) "\<not> (tr_symbol x = symbol \<and> tr_side x = ''SELL'')"
        "\<not> (tr_symbol x = symbol \<and> tr_side x = ''BUY'')"
    by argo
  then show ?case
  proof cases
    case sell
    then show ?thesis
      by (simp add: open_buys_snoc count_row_def)
  next
    case buy
    then have last_buy: "most_recent ''BUY'' symbol (xs @ [x]) = Some x"
      and last_sell: "most_recent ''SELL'' symbol (xs @ [x]) = most_recent ''SELL'' symbol xs"
      by (simp_all add: most_recent_snoc)
    from snoc.prems(2) last_buy last_sell obtain s where
      s: "most_recent ''SELL'' symbol xs = Some s" and later: "tr_timestamp x < tr_timestamp s"
      by (auto simp: get_last_buy_for_symbol_eq split: option.splits if_splits)
    from s have "s \<in> set xs"
      by (rule most_recent_in_set)
    with latest have "tr_timestamp s \<le> tr_timestamp x"
      by blast
    with later show ?thesis
      by simp
  next
    case other
    then have same: "most_recent ''BUY'' symbol (xs @ [x]) = most_recent ''BUY'' symbol xs"
      "most_recent ''SELL'' symbol (xs @ [x]) = most_recent ''SELL'' symbol xs"
      by (auto simp: most_recent_snoc)
    from snoc.prems(2) have "get_last_buy_for_symbol xs symbol = None"
      unfolding get_last_buy_for_symbol_eq same .
    with snoc.IH sorted_xs have "open_buys symbol xs = 0"
      by simp
    with other show ?thesis
      by (auto simp: open_buys_snoc count_row_def)
  qed
qed

lemma execute_buy_row_time:
  assumes "trade_log (execute_buy cl now product_id s) = trade_log st @ [r]"
    and "trade_log s = trade_log st"
  shows "tr_timestamp r = now"
proof (cases "order_placed (snd (buy_order cl product_id))")
  case True
  then obtain sent d where "buy_order cl product_id = (sent, Some d)" and "od_order_id d \<noteq> 0"
    by (cases "buy_order cl product_id") (auto simp: order_placed_def split: option.splits)
  from execute_buy_placed [OF this, of now s] assms show ?thesis
    by auto
next
  case False
  with assms show ?thesis
    by (simp add: execute_buy_not_placed)
qed

lemma execute_sell_row_time:
  assumes "trade_log (snd (execute_sell cl now product_id lb s)) = trade_log st @ [r]"
    and "trade_log s = trade_log st"
  shows "tr_timestamp r = now"
  using assms
  by (cases "sell_order cl product_id")
     (auto simp: execute_sell_eq Let_def log_trade_def split: option.splits if_splits)

lemma process_symbol_row_time:
  assumes "trade_log (snd (process_symbol cl now product_id portfolio_safe p st)) = trade_log st @ [r]"
  shows "tr_timestamp r = now"
  using assms
  by (auto simp: process_symbol_eq Let_def
      split: if_splits option.splits sum.splits bool.splits prod.splits
      dest!: execute_buy_row_time execute_sell_row_time)

text \<open>
  The invariant behind claim C6. While the clock does not step back (no row is stamped
  later than \<open>now\<close>), a run of \<open>process_symbol\<close> keeps the ledger's timestamps in order
  and leaves every symbol with at most one open position.
\<close>

lemma one_open_position_preserved:
  assumes sorted: "sorted (map tr_timestamp (trade_log st))"
    and clock: "\<forall>r \<in> set (trade_log st). tr_timestamp r \<le> now"
    and inv: "\<forall>symbol. open_buys symbol (trade_log st) \<le> 1"
  shows "sorted (map tr_timestamp (trade_log (snd (process_symbol cl now product_id portfolio_safe p st)))) \<and>
         (\<forall>symbol. open_buys symbol
                     (trade_log (snd (process_symbol cl now product_id portfolio_safe p st))) \<le> 1)"
proof -
  let ?log' = "trade_log (snd (process_symbol cl now product_id portfolio_safe p st))"
  from process_symbol_log [of cl now product_id portfolio_safe p st]
  consider (same) "?log' = trade_log st" | (row) r where "?log' = trade_log st @ [r]"
    by blast
  then show ?thesis
  proof cases
    case same
    with sorted inv show ?thesis
      by simp
  next
    case row
    from process_symbol_row_time [OF row] have time: "tr_timestamp r = now" .
    with sorted clock row have sorted': "sorted (map tr_timestamp ?log')"
      by (auto simp: sorted_append)
    have "open_buys symbol ?log' \<le> 1" for symbol
    proof (cases "tr_symbol r = symbol \<and> tr_side r = ''BUY''")
      case True
      with process_symbol_appended_row [OF row]
      have "symbol = ''binance_'' @ product_id"
        and "Execute_buy \<in> set (new_stages st (snd (process_symbol cl now product_id portfolio_safe p st)))"
        by auto
      then have "get_last_buy_for_symbol (trade_log st) symbol = None"
        by (simp add: execute_buy_entered_iff)
      with sorted have "open_buys symbol (trade_log st) = 0"
        by (rule closed_means_no_open_buy)
      with True row show ?thesis
        by (simp add: open_buys_snoc count_row_def)
    next
      case False
      with inv row show ?thesis
        by (auto simp: open_buys_snoc count_row_def)
    qed
    with sorted' show ?thesis
      by blast
  qed
qed


end
